theory Spec2Isabelle
  imports Complex_Main "HOL-Library.Sublist"
begin

section \<open>Strings as Python sees them\<close>

text \<open>
  A Python \<open>str\<close> is a sequence of code points and \<open>len\<close> counts code points. The
  model uses \<open>string\<close> (a list of 8-bit characters), reading each character as the code
  point of the same number: it covers texts over the code points 0..255.
\<close>

text \<open>\<open>str.isspace\<close> on one code point, which is also what \<open>\s\<close> matches in a \<open>str\<close>
  pattern: 9..13, 28..32, 133 and 160 below 256.\<close>

definition is_space :: "char \<Rightarrow> bool" where
  "is_space c = (let n = (of_char c :: nat) in
     (9 \<le> n \<and> n \<le> 13) \<or> (28 \<le> n \<and> n \<le> 32) \<or> n = 133 \<or> n = 160)"

text \<open>\<open>\d\<close> in a \<open>str\<close> pattern: the decimal digits; below 256 these are 0..9 only.\<close>

definition is_digit :: "char \<Rightarrow> bool" where
  "is_digit c = (let n = (of_char c :: nat) in 48 \<le> n \<and> n \<le> 57)"

text \<open>\<open>[.!?]\<close>\<close>

definition is_sentence_end :: "char \<Rightarrow> bool" where
  "is_sentence_end c = (c = CHR ''.'' \<or> c = CHR ''!'' \<or> c = CHR ''?'')"

text \<open>\<open>s.strip()\<close>: leading and trailing whitespace removed.\<close>

definition strip :: "string \<Rightarrow> string" where
  "strip s = rev (dropWhile is_space (rev (dropWhile is_space s)))"

section \<open>The chunker (scripts/ollama\_embeddings.py)\<close>

definition MAX_CHUNK_SIZE :: int where
  "MAX_CHUNK_SIZE = 800"

text \<open>The lookahead \<open>(?=\(\d+\))\<close> at the start of a string: an opening parenthesis, one
  or more digits, a closing parenthesis.\<close>

fun topic_marker :: "string \<Rightarrow> bool" where
  "topic_marker [] = False"
| "topic_marker (c # cs) =
     (c = CHR ''('' \<and> takeWhile is_digit cs \<noteq> [] \<and>
      take 1 (dropWhile is_digit cs) = '')'')"

text \<open>
  \<open>re.split(r'(?=\(\d+\))', text)\<close>. The pattern matches the empty string at every
  position where a marker starts, and \<open>re.split\<close> (Python 3.7 and later) cuts the text at
  each of them; a marker at position 0 gives an empty first piece. \<open>split_after_first\<close>
  returns the pieces of a text whose position 0 has been dealt with (it never returns the
  empty list, so the first branch of its \<open>case\<close> is never taken).
\<close>

fun split_after_first :: "string \<Rightarrow> string list" where
  "split_after_first [] = [[]]"
| "split_after_first (c # cs) =
     (if topic_marker cs then [c] # split_after_first cs
      else (case split_after_first cs of
              [] \<Rightarrow> [[c]]
            | piece # pieces \<Rightarrow> (c # piece) # pieces))"

definition split_topics :: "string \<Rightarrow> string list" where
  "split_topics text =
     (if topic_marker text then [] # split_after_first text else split_after_first text)"

text \<open>
  \<open>re.split(r'(?<=[.!?])\s+', text)\<close>: the separators are the maximal runs of
  whitespace that directly follow a sentence-ending character. The first flag says that
  the previous character ends a sentence, the second that a separator is being consumed.
\<close>

fun split_sentences_from :: "bool \<Rightarrow> bool \<Rightarrow> string \<Rightarrow> string list" where
  "split_sentences_from p sep [] = [[]]"
| "split_sentences_from p sep (c # cs) =
     (if sep \<and> is_space c then split_sentences_from False True cs
      else if p \<and> is_space c then [] # split_sentences_from False True cs
      else (case split_sentences_from (is_sentence_end c) False cs of
              [] \<Rightarrow> [[c]]
            | piece # pieces \<Rightarrow> (c # piece) # pieces))"

definition split_sentences :: "string \<Rightarrow> string list" where
  "split_sentences text = split_sentences_from False False text"

text \<open>\<open>text[:n]\<close> for a Python int \<open>n\<close>: a negative \<open>n\<close> counts from the end.\<close>

definition slice_to :: "string \<Rightarrow> int \<Rightarrow> string" where
  "slice_to text n = (if 0 \<le> n then take (nat n) text else take (length text - nat (- n)) text)"

text \<open>The \<open>for sentence in sentences\<close> loop, with its two variables \<open>chunks\<close> and
  \<open>current_chunk\<close>.\<close>

fun accumulate :: "int \<Rightarrow> string list \<Rightarrow> string \<Rightarrow> string list \<Rightarrow> string list \<times> string" where
  "accumulate max_size chunks current [] = (chunks, current)"
| "accumulate max_size chunks current (s # ss) =
     (if int (length current) + int (length s) < max_size
      then accumulate max_size chunks (current @ s @ '' '') ss
      else accumulate max_size
             (if current \<noteq> [] then chunks @ [strip current] else chunks) (s @ '' '') ss)"

text \<open>The sentence-based part of \<open>smart_chunk_text\<close>, from \<open>sentences = ...\<close> to the
  final \<open>return\<close>.\<close>

definition sentence_chunks :: "string \<Rightarrow> int \<Rightarrow> string list" where
  "sentence_chunks text max_size =
     (let (chunks, current) = accumulate max_size [] [] (split_sentences text);
          chunks' = (if current \<noteq> [] then chunks @ [strip current] else chunks)
      in if chunks' \<noteq> [] then chunks' else [slice_to text max_size])"

definition nonblank :: "string \<Rightarrow> bool" where
  "nonblank t = (strip t \<noteq> [])"

definition smart_chunk_text :: "string \<Rightarrow> int \<Rightarrow> string list" where
  "smart_chunk_text text max_size =
     (let topics = split_topics text in
      if length topics > 1 \<and> list_all (\<lambda>t. int (length t) < max_size) (filter nonblank topics)
      then map strip (filter nonblank topics)
      else sentence_chunks text max_size)"

section \<open>The store\<close>

text \<open>
  The relational store is reached through a psycopg2 connection. The table definitions
  are not part of the sources, so a row carries the columns that the code names, and a
  column that an INSERT does not name is NULL (\<open>None\<close>). An embedding is a list of
  numbers; the floats of the source are modelled as exact rationals.
\<close>

type_synonym vector = "rat list"

record observation =
  obs_id :: nat
  entity_id :: nat
  observation_text :: string
  observation_index :: int
  source_type :: string
  embedding :: "vector option"
  created_at :: nat
  observation_type :: "string option"
  importance :: "rat option"
  tags :: "string option list option"
  metadata :: "(string \<times> string) list option"

record entity =
  ent_id :: nat
  ent_name :: string
  entity_type :: string
  ent_source_type :: string
  observation_count :: nat
  ent_metadata :: "(string \<times> string) list"

record tables =
  observations :: "observation list"
  observations_archive :: "observation list"
  entities :: "entity list"

text \<open>
  A connection holds the committed tables (what any other reader sees, and what is left
  when the connection is closed), the tables as the open transaction sees them, the two
  id sequences (which a rollback does not rewind), the clock, and a fault to inject:
  \<open>fail_after = Some k\<close> makes the statement after the next \<open>k\<close> ones raise.
\<close>

record conn =
  committed :: tables
  working :: tables
  obs_seq :: nat
  ent_seq :: nat
  now :: nat
  fail_after :: "nat option"

datatype 'a outcome = Raised | Returned 'a

text \<open>One statement sent to the store: it raises, or it goes through.\<close>

definition statement :: "conn \<Rightarrow> conn option" where
  "statement c = (case fail_after c of
       None \<Rightarrow> Some c
     | Some 0 \<Rightarrow> None
     | Some (Suc k) \<Rightarrow> Some (c\<lparr>fail_after := Some k\<rparr>))"

text \<open>Sequencing with exceptions: a raise ends the computation.\<close>

definition and_then ::
  "'a outcome \<times> conn \<Rightarrow> ('a \<Rightarrow> conn \<Rightarrow> 'b outcome \<times> conn) \<Rightarrow> 'b outcome \<times> conn" where
  "and_then m f = (case m of (Raised, c) \<Rightarrow> (Raised, c) | (Returned x, c) \<Rightarrow> f x c)"

text \<open>\<open>conn.commit()\<close>\<close>

definition commit :: "conn \<Rightarrow> unit outcome \<times> conn" where
  "commit c = (case statement c of
       None \<Rightarrow> (Raised, c)
     | Some c1 \<Rightarrow> (Returned (), c1\<lparr>committed := working c1\<rparr>))"

section \<open>Chunking an observation (scripts/ollama\_embeddings.py)\<close>

text \<open>\<open>str(n)\<close> for a natural number.\<close>

fun str_nat :: "nat \<Rightarrow> string" where
  "str_nat n = (if n < 10 then [char_of (48 + n)]
                else str_nat (n div 10) @ [char_of (48 + n mod 10)])"

declare str_nat.simps [simp del]

text \<open>\<open>re.match(r'^([^:]+:)', obs_text)\<close>: the text up to and including its first
  colon, when that colon is not the first character; the empty string when nothing
  matches.\<close>

definition date_prefix_of :: "string \<Rightarrow> string" where
  "date_prefix_of obs_text =
     (let p = takeWhile (\<lambda>c. c \<noteq> CHR '':'') obs_text
      in if p \<noteq> [] \<and> length p < length obs_text then p @ '':'' else [])"

definition chunk_with_part :: "string \<Rightarrow> nat \<Rightarrow> nat \<Rightarrow> string \<Rightarrow> string" where
  "chunk_with_part date_prefix i n chunk_text =
     (if date_prefix \<noteq> []
      then date_prefix @ '' (Part '' @ str_nat i @ ''/'' @ str_nat n @ '') ''
             @ strip (drop (length date_prefix) chunk_text)
      else ''(Part '' @ str_nat i @ ''/'' @ str_nat n @ '') '' @ chunk_text)"

text \<open>\<open>INSERT INTO observations (entity_id, observation_text, observation_index,
  source_type) VALUES (%s, %s, %s, 'chunked') RETURNING id\<close>\<close>

definition insert_chunk :: "conn \<Rightarrow> nat \<Rightarrow> string \<Rightarrow> int \<Rightarrow> nat outcome \<times> conn" where
  "insert_chunk c eid text idx = (case statement c of
       None \<Rightarrow> (Raised, c)
     | Some c1 \<Rightarrow>
         (Returned (obs_seq c1),
          c1\<lparr>working := (working c1)\<lparr>observations := observations (working c1) @
                 [\<lparr>obs_id = obs_seq c1, entity_id = eid, observation_text = text,
                   observation_index = idx, source_type = ''chunked'', embedding = None,
                   created_at = now c1, observation_type = None, importance = None,
                   tags = None, metadata = None\<rparr>]\<rparr>,
              obs_seq := obs_seq c1 + 1\<rparr>))"

text \<open>The loop \<open>for i, chunk_text in enumerate(chunks, 1)\<close>; \<open>n\<close> is \<open>len(chunks)\<close>.\<close>

fun insert_chunks ::
  "conn \<Rightarrow> nat \<Rightarrow> string \<Rightarrow> nat \<Rightarrow> int \<Rightarrow> nat \<Rightarrow> string list \<Rightarrow> nat list
     \<Rightarrow> nat list outcome \<times> conn" where
  "insert_chunks c eid date_prefix n max_index i [] new_obs_ids = (Returned new_obs_ids, c)"
| "insert_chunks c eid date_prefix n max_index i (chunk_text # rest) new_obs_ids =
     and_then (insert_chunk c eid (chunk_with_part date_prefix i n chunk_text) (max_index + int i))
       (\<lambda>new_id c1. insert_chunks c1 eid date_prefix n max_index (i + 1) rest
                       (new_obs_ids @ [new_id]))"

text \<open>\<open>INSERT INTO observations_archive SELECT * FROM observations WHERE id = %s\<close>\<close>

definition archive_original :: "conn \<Rightarrow> nat \<Rightarrow> unit outcome \<times> conn" where
  "archive_original c oid = (case statement c of
       None \<Rightarrow> (Raised, c)
     | Some c1 \<Rightarrow>
         (Returned (),
          c1\<lparr>working := (working c1)\<lparr>observations_archive :=
                 observations_archive (working c1) @
                 filter (\<lambda>r. obs_id r = oid) (observations (working c1))\<rparr>\<rparr>))"

text \<open>\<open>DELETE FROM observations WHERE id = %s\<close>\<close>

definition delete_original :: "conn \<Rightarrow> nat \<Rightarrow> unit outcome \<times> conn" where
  "delete_original c oid = (case statement c of
       None \<Rightarrow> (Raised, c)
     | Some c1 \<Rightarrow>
         (Returned (),
          c1\<lparr>working := (working c1)\<lparr>observations :=
                 filter (\<lambda>r. obs_id r \<noteq> oid) (observations (working c1))\<rparr>\<rparr>))"

definition chunk_long_observation ::
  "conn \<Rightarrow> nat \<Rightarrow> string \<Rightarrow> nat \<Rightarrow> int \<Rightarrow> nat list outcome \<times> conn" where
  "chunk_long_observation c oid obs_text eid max_index =
     (let chunks = smart_chunk_text obs_text MAX_CHUNK_SIZE in
      if length chunks \<le> 1 then (Returned [], c)
      else
        and_then (insert_chunks c eid (date_prefix_of obs_text) (length chunks) max_index 1 chunks [])
          (\<lambda>new_obs_ids c1.
        and_then (archive_original c1 oid) (\<lambda>_ c2.
        and_then (delete_original c2 oid) (\<lambda>_ c3.
        and_then (commit c3) (\<lambda>_ c4. (Returned new_obs_ids, c4))))))"

text \<open>No fault is injected into the next \<open>n\<close> statements.\<close>

definition survives :: "conn \<Rightarrow> nat \<Rightarrow> bool" where
  "survives c n = (case fail_after c of None \<Rightarrow> True | Some k \<Rightarrow> n \<le> k)"

subsection \<open>Example stores\<close>

text \<open>A connection, nothing pending, whose entity 3 has one observation, number 7 with
  sequence index 4, holding the given text.\<close>

definition single_observation :: "string \<Rightarrow> observation" where
  "single_observation t =
     \<lparr>obs_id = 7, entity_id = 3, observation_text = t, observation_index = 4,
      source_type = ''manual'', embedding = None, created_at = 0, observation_type = None,
      importance = None, tags = None, metadata = None\<rparr>"

definition single_entity :: entity where
  "single_entity =
     \<lparr>ent_id = 3, ent_name = ''journal'', entity_type = ''project'', ent_source_type = ''manual'',
      observation_count = 1, ent_metadata = []\<rparr>"

definition single_conn :: "string \<Rightarrow> nat option \<Rightarrow> conn" where
  "single_conn t fault =
     \<lparr>committed = \<lparr>observations = [single_observation t], observations_archive = [],
                   entities = [single_entity]\<rparr>,
      working = \<lparr>observations = [single_observation t], observations_archive = [],
                 entities = [single_entity]\<rparr>,
      obs_seq = 8, ent_seq = 4, now = 1, fail_after = fault\<rparr>"

text \<open>A dated text of 810 characters in two sentences, and a short dated text with
  two numbered topics.\<close>

definition two_sentences :: string where
  "two_sentences = ''Jan 1: '' @ replicate 400 CHR ''a'' @ ''. '' @ replicate 400 CHR ''b'' @ ''.''"

definition two_topics :: string where
  "two_topics = ''Jan 1: (1) alpha (2) beta''"

section \<open>The classifier (scripts/backfill\_metadata.py)\<close>

text \<open>\<open>str.lower\<close> on one code point below 256: the ASCII capitals, and the Latin-1
  capitals 192..222 except the multiplication sign 215.\<close>

definition lower_char :: "char \<Rightarrow> char" where
  "lower_char c = (let n = (of_char c :: nat) in
     if (65 \<le> n \<and> n \<le> 90) \<or> (192 \<le> n \<and> n \<le> 222 \<and> n \<noteq> 215) then char_of (n + 32) else c)"

definition py_lower :: "string \<Rightarrow> string" where
  "py_lower s = map lower_char s"

text \<open>\<open>s.split(sep)\<close> for a separator of one character.\<close>

fun split_on :: "char \<Rightarrow> string \<Rightarrow> string list" where
  "split_on d [] = [[]]"
| "split_on d (c # cs) =
     (if c = d then [] # split_on d cs
      else (case split_on d cs of
              [] \<Rightarrow> [[c]]
            | piece # pieces \<Rightarrow> (c # piece) # pieces))"

subsection \<open>The regular expressions of the pattern tables\<close>

text \<open>
  Every pattern of the tables is an alternation of sequences of literal characters and
  \<open>\d+\<close>. An alternative is a list of atoms, a pattern the list of its alternatives in
  the order written. \<open>\d+\<close> is greedy; in the tables it is followed by a literal that is
  not a digit, or by nothing, so giving digits back never makes a match, and the matcher
  takes the whole run. All patterns are used with \<open>re.IGNORECASE\<close>: characters are
  compared after lowering both.
\<close>

datatype atom = Ch char | Digits

type_synonym pattern = "atom list list"

text \<open>The length of the match of one alternative at the start of the string.\<close>

fun match_atoms :: "atom list \<Rightarrow> string \<Rightarrow> nat option" where
  "match_atoms [] s = Some 0"
| "match_atoms (Ch c # as) [] = None"
| "match_atoms (Ch c # as) (x # xs) =
     (if lower_char x = lower_char c then map_option Suc (match_atoms as xs) else None)"
| "match_atoms (Digits # as) s =
     (if takeWhile is_digit s = [] then None
      else map_option (\<lambda>n. length (takeWhile is_digit s) + n)
             (match_atoms as (dropWhile is_digit s)))"

text \<open>The alternatives are tried in order; the first that matches wins.\<close>

fun match_here :: "pattern \<Rightarrow> string \<Rightarrow> nat option" where
  "match_here [] s = None"
| "match_here (a # as) s =
     (case match_atoms a s of Some n \<Rightarrow> Some n | None \<Rightarrow> match_here as s)"

text \<open>\<open>re.search(pattern, s)\<close> as a truth value: a match at some position.\<close>

fun re_search :: "pattern \<Rightarrow> string \<Rightarrow> bool" where
  "re_search p [] = (match_here p [] \<noteq> None)"
| "re_search p (c # cs) = (match_here p (c # cs) \<noteq> None \<or> re_search p cs)"

text \<open>
  \<open>len(re.findall(pattern, s))\<close>: the matches are found from left to right and do not
  overlap. The first argument is the number of characters still covered by the last
  match.
\<close>

fun count_matches_from :: "nat \<Rightarrow> pattern \<Rightarrow> string \<Rightarrow> nat" where
  "count_matches_from k p [] = (if k = 0 \<and> match_here p [] \<noteq> None then 1 else 0)"
| "count_matches_from k p (c # cs) =
     (if 0 < k then count_matches_from (k - 1) p cs
      else (case match_here p (c # cs) of
              None \<Rightarrow> count_matches_from 0 p cs
            | Some n \<Rightarrow> 1 + count_matches_from (n - 1) p cs))"

definition count_matches :: "pattern \<Rightarrow> string \<Rightarrow> nat" where
  "count_matches p s = count_matches_from 0 p s"

definition lit :: "string \<Rightarrow> atom list" where
  "lit s = map Ch s"

definition alts :: "string list \<Rightarrow> pattern" where
  "alts ws = map lit ws"

subsection \<open>The pattern tables\<close>

definition TYPE_PATTERNS :: "(string \<times> pattern list) list" where
  "TYPE_PATTERNS =
    [(''technical_achievement'',
        [alts [''successfully'', ''completed'', ''fixed'', ''resolved'', ''working'', ''deployed'',
               ''installed'', ''configured''],
         alts [''migration complete'', ''now works'', ''bug fixed'', ''issue resolved'']]),
     (''milestone'',
        [alts [''milestone'', ''launched'', ''released'', ''shipped'']
           @ [[Ch CHR ''v'', Digits, Ch CHR ''.'', Digits], lit ''version '' @ [Digits]],
         alts [''first time'', ''breakthrough'', ''achievement'']]),
     (''insight'',
        [alts [''realized'', ''discovered'', ''learned'', ''understanding'', ''insight'',
               ''key finding''],
         alts [''important:'', ''note:'', ''remember:'']]),
     (''project_update'',
        [alts [''progress'', ''update'', ''status'', ''working on'', ''building'', ''developing''],
         alts [''added'', ''created'', ''implemented'', ''integrated'']]),
     (''research'',
        [alts [''research'', ''investigating'', ''exploring'', ''analyzing'', ''studying''],
         alts [''paper'', ''article'', ''documentation'', ''spec'']]),
     (''decision'',
        [alts [''decided'', ''decision'', ''chose'', ''selected'', ''going with'', ''will use''],
         alts [''strategy'', ''approach'', ''plan'']]),
     (''problem'',
        [alts [''issue'', ''problem'', ''error'', ''bug'', ''failed'', ''broken'', ''not working''],
         alts [''trouble'', ''stuck'', ''blocker'']]),
     (''reference'',
        [alts [''reference'', ''documentation'', ''guide'', ''tutorial'', ''how to''],
         alts [''url:'', ''link:'', ''see:'', ''docs:'']])]"

definition HIGH_IMPORTANCE_SIGNALS :: "pattern list" where
  "HIGH_IMPORTANCE_SIGNALS =
    [alts [''important'', ''critical'', ''crucial'', ''essential'', ''key'', ''major''],
     alts [''breakthrough'', ''milestone'', ''achievement'', ''success''],
     alts [''production'', ''deployed'', ''released'', ''shipped''],
     alts [''decision'', ''strategy'', ''architecture'']]"

definition MEDIUM_IMPORTANCE_SIGNALS :: "pattern list" where
  "MEDIUM_IMPORTANCE_SIGNALS =
    [alts [''completed'', ''finished'', ''done'', ''working''],
     alts [''fixed'', ''resolved'', ''solved''],
     alts [''learned'', ''discovered'', ''realized'']]"

definition LOW_IMPORTANCE_SIGNALS :: "pattern list" where
  "LOW_IMPORTANCE_SIGNALS =
    [alts [''testing'', ''trying'', ''experimenting''],
     alts [''minor'', ''small'', ''quick''],
     alts [''debug'', ''troubleshoot'']]"

subsection \<open>Type inference\<close>

text \<open>The score of one type: the matches of all its patterns, added up.\<close>

definition type_score :: "pattern list \<Rightarrow> string \<Rightarrow> nat" where
  "type_score patterns text_lower = foldl (\<lambda>score p. score + count_matches p text_lower) 0 patterns"

text \<open>The dictionary \<open>scores\<close>, in insertion order: the types with a positive score.\<close>

definition type_scores :: "string \<Rightarrow> (string \<times> nat) list" where
  "type_scores text_lower =
     filter (\<lambda>(obs_type, score). 0 < score)
       (map (\<lambda>(obs_type, patterns). (obs_type, type_score patterns text_lower)) TYPE_PATTERNS)"

text \<open>\<open>max(scores, key=scores.get)\<close>: the first key with the greatest value.\<close>

fun max_by_score :: "string \<times> nat \<Rightarrow> (string \<times> nat) list \<Rightarrow> string \<times> nat" where
  "max_by_score best [] = best"
| "max_by_score best (x # xs) = max_by_score (if snd best < snd x then x else best) xs"

definition infer_observation_type :: "string \<Rightarrow> string" where
  "infer_observation_type text =
     (case type_scores (py_lower text) of
        [] \<Rightarrow> ''note''
      | first # others \<Rightarrow> fst (max_by_score first others))"

subsection \<open>Importance, when backfilling\<close>

text \<open>
  The score is a Python float; it is modelled as an exact rational. The score after the
  three signal loops and the length bonus depends on the text alone.
\<close>

definition text_score :: "string \<Rightarrow> rat" where
  "text_score text =
     (let text_lower = py_lower text;
          score = 1/2;
          score = foldl (\<lambda>score p. if re_search p text_lower then score + 15/100 else score)
                    score HIGH_IMPORTANCE_SIGNALS;
          score = foldl (\<lambda>score p. if re_search p text_lower then score + 8/100 else score)
                    score MEDIUM_IMPORTANCE_SIGNALS;
          score = foldl (\<lambda>score p. if re_search p text_lower then score - 5/100 else score)
                    score LOW_IMPORTANCE_SIGNALS
      in if 500 < length text then score + 1/10
         else if 200 < length text then score + 5/100
         else score)"

text \<open>
  \<open>calculate_importance(text, entity_name=None)\<close> of backfill\_metadata.py. The third
  argument is the value of the environment variable
  \<open>LONGTERM_MEMORY_USER_ENTITIES\<close> (the empty string when it is not set).
\<close>

definition calculate_importance :: "string \<Rightarrow> string option \<Rightarrow> string \<Rightarrow> rat" where
  "calculate_importance text entity_name env =
     (let score = text_score text;
          user_entities = split_on CHR '','' (py_lower env);
          score = (case entity_name of
                     None \<Rightarrow> score
                   | Some n \<Rightarrow> if n \<noteq> [] \<and> py_lower n \<in> set user_entities
                               then score + 1/10 else score)
      in max (1/10) (min 1 score))"

section \<open>Importance at ingestion (native-host/longterm\_memory\_host.py)\<close>

text \<open>\<open>calculate_importance(capture_type, has_notes, tags)\<close> of the native host.\<close>

definition host_calculate_importance :: "string \<Rightarrow> bool \<Rightarrow> 'a list \<Rightarrow> rat" where
  "host_calculate_importance capture_type has_notes tag_list =
     (let base = 1/2;
          base = (if has_notes then base + 2/10 else base);
          base = (if tag_list \<noteq> [] \<and> 0 < length tag_list then base + 1/10 else base);
          base = (if capture_type = ''page'' then base - 1/10 else base)
      in max 0 (min 1 base))"

section \<open>The embedding providers\<close>

text \<open>
  A call to a local inference service either raises (the connection is refused, the call
  times out, the answer is not JSON, or it is JSON of a shape the code trips over), or it
  gives a JSON object, of which the model keeps what the code reads.
\<close>

datatype 'a http = Raises | Json 'a

text \<open>
  The value that an answer carries as its embedding. The code never checks that it is a
  list of numbers: it tests its truth value and hands it on. So the value is a list of
  numbers, or something else (a string, a number, an object, a list with other
  elements); of a value of the second kind the model keeps what the code observes of it:
  \<^item> its Python truth value;
  \<^item> the vector that the store reads when app.py sends it as the text
    \<open>'[' + ','.join(map(str, embedding)) + ']'\<close> cast to \<open>vector\<close>, and \<open>None\<close> when
    building the text or the cast raises (as for \<open>'abc'\<close>, sent as \<open>[a,b,c]\<close>);
  \<^item> the vector that the store reads when the embedding pass sends it as the parameter
    of \<open>%s::vector\<close>, and \<open>None\<close> when that raises (as for \<open>'oops'\<close>).
\<close>

datatype jvalue = JVector vector | JOther bool "vector option" "vector option"

fun py_true :: "jvalue \<Rightarrow> bool" where
  "py_true (JVector v) = (v \<noteq> [])"
| "py_true (JOther truth as_text as_param) = truth"

fun as_query_text :: "jvalue \<Rightarrow> vector option" where
  "as_query_text (JVector v) = Some v"
| "as_query_text (JOther truth as_text as_param) = as_text"

fun as_parameter :: "jvalue \<Rightarrow> vector option" where
  "as_parameter (JVector v) = Some v"
| "as_parameter (JOther truth as_text as_param) = as_param"

text \<open>
  The three endpoints, as functions of the text that is sent:
  \<^item> Ollama \<open>/api/embeddings\<close>: whether the object has an \<open>error\<close> key, and its
    \<open>embedding\<close> (\<open>None\<close> when the key is missing or null);
  \<^item> Ollama \<open>/api/embed\<close>: the elements of \<open>embeddings\<close> (\<open>None\<close> when the key is
    missing);
  \<^item> LM Studio \<open>/v1/embeddings\<close>: the list \<open>data\<close> (\<open>None\<close> when the key is missing),
    each entry with its \<open>embedding\<close> (\<open>None\<close> when the key is missing or null).
\<close>

record providers =
  ollama_embeddings :: "string \<Rightarrow> (bool \<times> jvalue option) http"
  ollama_embed :: "string \<Rightarrow> (jvalue list option) http"
  lmstudio_embeddings :: "string \<Rightarrow> (jvalue option list option) http"

text \<open>\<open>s.split()\<close>: the maximal runs of characters that are not whitespace. The first
  argument is the word being read.\<close>

fun split_whitespace :: "string \<Rightarrow> string \<Rightarrow> string list" where
  "split_whitespace w [] = (if w = [] then [] else [w])"
| "split_whitespace w (c # cs) =
     (if is_space c then (if w = [] then split_whitespace [] cs else w # split_whitespace [] cs)
      else split_whitespace (w @ [c]) cs)"

text \<open>\<open>sep.join(words)\<close>\<close>

fun join :: "string \<Rightarrow> string list \<Rightarrow> string" where
  "join sep [] = []"
| "join sep [w] = w"
| "join sep (w # ws) = w @ sep @ join sep ws"

text \<open>The first \<open>try\<close> block of \<open>get_ollama_embedding\<close>: the value it returns, or
  \<open>None\<close> when control falls through to LM Studio.\<close>

definition try_ollama :: "providers \<Rightarrow> string \<Rightarrow> jvalue option" where
  "try_ollama env text = (case ollama_embeddings env text of
       Raises \<Rightarrow> None
     | Json (has_error, None) \<Rightarrow> None
     | Json (has_error, Some e) \<Rightarrow> if \<not> has_error \<and> py_true e then Some e else None)"

text \<open>The second \<open>try\<close> block and the final \<open>return None\<close>.\<close>

definition try_lmstudio :: "providers \<Rightarrow> string \<Rightarrow> jvalue option" where
  "try_lmstudio env text = (case lmstudio_embeddings env text of
       Raises \<Rightarrow> None
     | Json None \<Rightarrow> None
     | Json (Some []) \<Rightarrow> None
     | Json (Some (None # entries)) \<Rightarrow> None
     | Json (Some (Some e # entries)) \<Rightarrow> if py_true e then Some e else None)"

text \<open>\<open>' '.join(text.split())\<close>\<close>

definition clean_text :: "string \<Rightarrow> string" where
  "clean_text text = join '' '' (split_whitespace [] text)"

definition get_ollama_embedding :: "providers \<Rightarrow> string \<Rightarrow> jvalue option" where
  "get_ollama_embedding env text0 =
     (let text = clean_text text0 in
      case try_ollama env text of
        Some e \<Rightarrow> Some e
      | None \<Rightarrow> try_lmstudio env text)"

subsection \<open>When a provider has failed\<close>




section \<open>The embedding pass (scripts/ollama\_embeddings.py)\<close>

text \<open>\<open>SELECT MAX(observation_index) FROM observations WHERE entity_id = %s\<close>, with 0
  for no row.\<close>

definition select_max_index :: "conn \<Rightarrow> nat \<Rightarrow> int outcome \<times> conn" where
  "select_max_index c eid = (case statement c of
       None \<Rightarrow> (Raised, c)
     | Some c1 \<Rightarrow>
         (Returned (case map observation_index
                           (filter (\<lambda>r. entity_id r = eid) (observations (working c1))) of
                      [] \<Rightarrow> 0
                    | x # xs \<Rightarrow> foldl max x xs), c1))"

text \<open>\<open>SELECT observation_text FROM observations WHERE id = %s\<close> and \<open>fetchone\<close>.\<close>

definition select_text :: "conn \<Rightarrow> nat \<Rightarrow> string option outcome \<times> conn" where
  "select_text c oid = (case statement c of
       None \<Rightarrow> (Raised, c)
     | Some c1 \<Rightarrow>
         (Returned (map_option observation_text
                      (find (\<lambda>r. obs_id r = oid) (observations (working c1)))), c1))"

text \<open>\<open>UPDATE observations SET embedding = %s::vector WHERE id = %s\<close>; the statement
  raises when the store cannot read the parameter as a vector.\<close>

definition update_embedding :: "conn \<Rightarrow> nat \<Rightarrow> jvalue \<Rightarrow> unit outcome \<times> conn" where
  "update_embedding c oid e = (case statement c of
       None \<Rightarrow> (Raised, c)
     | Some c1 \<Rightarrow>
         (case as_parameter e of
            None \<Rightarrow> (Raised, c1)
          | Some v \<Rightarrow>
              (Returned (),
               c1\<lparr>working := (working c1)\<lparr>observations :=
                      map (\<lambda>r. if obs_id r = oid then r\<lparr>embedding := Some v\<rparr> else r)
                          (observations (working c1))\<rparr>\<rparr>)))"

text \<open>The inner loop \<open>for new_id in new_ids\<close>; it returns the new \<open>embedded_count\<close>.\<close>

fun embed_chunks :: "providers \<Rightarrow> conn \<Rightarrow> nat list \<Rightarrow> nat \<Rightarrow> nat outcome \<times> conn" where
  "embed_chunks env c [] embedded_count = (Returned embedded_count, c)"
| "embed_chunks env c (new_id # new_ids) embedded_count =
     and_then (select_text c new_id) (\<lambda>chunk_text c1.
       case chunk_text of
         None \<Rightarrow> embed_chunks env c1 new_ids embedded_count
       | Some t \<Rightarrow>
           if t = [] then embed_chunks env c1 new_ids embedded_count
           else (case get_ollama_embedding env t of
                   None \<Rightarrow> embed_chunks env c1 new_ids embedded_count
                 | Some e \<Rightarrow>
                     and_then (update_embedding c1 new_id e) (\<lambda>_ c2.
                       embed_chunks env c2 new_ids (embedded_count + 1))))"

text \<open>"Normal embedding for observations under MAX\_CHUNK\_SIZE": the rest of the loop
  body. A batch size of 0 makes \<open>embedded_count % batch_size\<close> raise.\<close>

definition embed_whole ::
  "providers \<Rightarrow> nat \<Rightarrow> conn \<Rightarrow> observation \<Rightarrow> nat \<Rightarrow> nat outcome \<times> conn" where
  "embed_whole env batch_size c obs embedded_count =
     (case get_ollama_embedding env (observation_text obs) of
        None \<Rightarrow> (Returned embedded_count, c)
      | Some e \<Rightarrow>
          and_then (update_embedding c (obs_id obs) e) (\<lambda>_ c1.
            if batch_size = 0 then (Raised, c1)
            else if (embedded_count + 1) mod batch_size = 0
            then and_then (commit c1) (\<lambda>_ c2. (Returned (embedded_count + 1), c2))
            else (Returned (embedded_count + 1), c1)))"

text \<open>One turn of the loop \<open>for i, obs in enumerate(observations)\<close>, on the counters
  \<open>embedded_count\<close> and \<open>chunked_count\<close>.\<close>

definition embed_one ::
  "providers \<Rightarrow> nat \<Rightarrow> conn \<Rightarrow> observation \<Rightarrow> nat \<times> nat \<Rightarrow> (nat \<times> nat) outcome \<times> conn" where
  "embed_one env batch_size c obs counts =
     (let obs_text = observation_text obs; embedded_count = fst counts; chunked_count = snd counts in
      if MAX_CHUNK_SIZE < int (length obs_text)
      then
        and_then (select_max_index c (entity_id obs)) (\<lambda>max_index c1.
        and_then (chunk_long_observation c1 (obs_id obs) obs_text (entity_id obs) max_index)
          (\<lambda>new_ids c2.
             if new_ids \<noteq> []
             then and_then (embed_chunks env c2 new_ids embedded_count) (\<lambda>embedded_count c3.
                  and_then (commit c3) (\<lambda>_ c4. (Returned (embedded_count, chunked_count + 1), c4)))
             else and_then (embed_whole env batch_size c2 obs embedded_count)
                    (\<lambda>embedded_count c3. (Returned (embedded_count, chunked_count), c3))))
      else and_then (embed_whole env batch_size c obs embedded_count)
             (\<lambda>embedded_count c1. (Returned (embedded_count, chunked_count), c1)))"

fun embed_loop ::
  "providers \<Rightarrow> nat \<Rightarrow> conn \<Rightarrow> observation list \<Rightarrow> nat \<times> nat \<Rightarrow> (nat \<times> nat) outcome \<times> conn" where
  "embed_loop env batch_size c [] counts = (Returned counts, c)"
| "embed_loop env batch_size c (obs # rest) counts =
     and_then (embed_one env batch_size c obs counts)
       (\<lambda>counts c1. embed_loop env batch_size c1 rest counts)"

text \<open>The query of the pass: the observations without an embedding, the newest first,
  at most \<open>limit\<close> of them when a limit other than 0 is given.\<close>

definition select_unembedded :: "conn \<Rightarrow> nat option \<Rightarrow> observation list outcome \<times> conn" where
  "select_unembedded c limit = (case statement c of
       None \<Rightarrow> (Raised, c)
     | Some c1 \<Rightarrow>
         (let rows = sort_key (\<lambda>r. - int (created_at r))
                       (filter (\<lambda>r. embedding r = None) (observations (working c1)))
          in (Returned (case limit of
                          None \<Rightarrow> rows
                        | Some n \<Rightarrow> if n = 0 then rows else take n rows), c1)))"

text \<open>\<open>embed_observations(conn, limit, batch_size)\<close>; it returns the two counters
  (which the source prints).\<close>

definition embed_observations ::
  "providers \<Rightarrow> conn \<Rightarrow> nat option \<Rightarrow> nat \<Rightarrow> (nat \<times> nat) outcome \<times> conn" where
  "embed_observations env c limit batch_size =
     and_then (select_unembedded c limit) (\<lambda>rows c1.
       if rows = [] then (Returned (0, 0), c1)
       else and_then (embed_loop env batch_size c1 rows (0, 0)) (\<lambda>counts c2.
            and_then (commit c2) (\<lambda>_ c3. (Returned counts, c3))))"

subsection \<open>Example providers\<close>

text \<open>Ollama answers every text with the vector \<open>[1]\<close>; LM Studio is not running.\<close>

definition ollama_only :: providers where
  "ollama_only =
     \<lparr>ollama_embeddings = (\<lambda>text. Json (False, Some (JVector [1]))),
      ollama_embed = (\<lambda>text. Json (Some [JVector [1]])),
      lmstudio_embeddings = (\<lambda>text. Raises)\<rparr>"

text \<open>Ollama is not running; LM Studio answers every text with the vector \<open>[0, 1]\<close>.\<close>

definition lmstudio_only :: providers where
  "lmstudio_only =
     \<lparr>ollama_embeddings = (\<lambda>text. Raises),
      ollama_embed = (\<lambda>text. Raises),
      lmstudio_embeddings = (\<lambda>text. Json (Some [Some (JVector [0, 1])]))\<rparr>"



section \<open>Semantic retrieval (dashboard/app.py)\<close>

text \<open>
  The request arguments after parsing: \<open>q\<close> (the empty string when absent), \<open>limit\<close>,
  \<open>min_similarity\<close> and \<open>include_archive\<close> (\<open>None\<close> when absent). A value that
  \<open>int\<close> or \<open>float\<close> rejects ends the request before anything else happens and is not
  modelled.
\<close>

record search_args =
  q :: string
  limit_arg :: "int option"
  min_similarity_arg :: "rat option"
  include_archive_arg :: "string option"

text \<open>A row of the ranking query: the columns of the observation, the name of its entity
  (LEFT JOIN: \<open>None\<close> when there is none), the table it comes from, the similarity.\<close>

record db_row =
  row_obs :: observation
  row_entity_name :: "string option"
  row_storage :: string
  row_similarity :: rat

text \<open>A result as it is sent back. Deleting the key \<open>embedding\<close> is modelled by setting
  the field to \<open>None\<close>; \<open>res_similarity = None\<close> is the JSON \<open>null\<close>.\<close>

record search_result =
  res_obs :: observation
  res_entity_name :: "string option"
  res_storage :: string
  res_similarity :: "rat option"

record search_body =
  body_query :: string
  body_results :: "search_result list"
  body_count :: nat
  body_min_similarity :: rat
  body_embedding_source :: "string option"

text \<open>The responses: the three that the function builds, and the 500 that the framework
  sends when an exception leaves the function.\<close>

datatype response =
  BadRequest | ServiceUnavailable "string list" | Ok search_body | ServerError

fun status_code :: "response \<Rightarrow> nat" where
  "status_code BadRequest = 400"
| "status_code (ServiceUnavailable details) = 503"
| "status_code (Ok body) = 200"
| "status_code ServerError = 500"

text \<open>Python's truth value of the variable \<open>embedding\<close>: \<open>None\<close> is false.\<close>

fun truthy :: "jvalue option \<Rightarrow> bool" where
  "truthy None = False"
| "truthy (Some e) = py_true e"

text \<open>The first \<open>try\<close> block of \<open>api_semantic_search\<close>, on the variables \<open>embedding\<close>,
  \<open>embedding_source\<close> and \<open>errors\<close> (\<open>emb\<close>, \<open>source\<close> and \<open>errors\<close> below). \<open>result.get('embeddings', [[]])[0]\<close> raises on an
  empty list.\<close>

definition ask_ollama ::
  "providers \<Rightarrow> string \<Rightarrow> jvalue option \<times> string option \<times> string list" where
  "ask_ollama env query = (case ollama_embed env query of
       Raises \<Rightarrow> (None, None, [''Ollama''])
     | Json None \<Rightarrow> (Some (JVector []), None, [])
     | Json (Some []) \<Rightarrow> (None, None, [''Ollama''])
     | Json (Some (e # es)) \<Rightarrow> (Some e, if truthy (Some e) then Some ''ollama'' else None, []))"

text \<open>The second \<open>try\<close> block, entered when \<open>embedding\<close> is false.
  \<open>result.get('data', [{}])[0].get('embedding', [])\<close> raises on an empty \<open>data\<close>.\<close>

definition ask_lmstudio ::
  "providers \<Rightarrow> string \<Rightarrow> jvalue option \<times> string option \<times> string list
     \<Rightarrow> jvalue option \<times> string option \<times> string list" where
  "ask_lmstudio env query state =
     (case state of (emb, source, errors) \<Rightarrow>
        if truthy emb then state
        else (case lmstudio_embeddings env query of
                Raises \<Rightarrow> (emb, source, errors @ [''LM Studio''])
              | Json None \<Rightarrow> (Some (JVector []), source, errors)
              | Json (Some []) \<Rightarrow> (emb, source, errors @ [''LM Studio''])
              | Json (Some (None # entries)) \<Rightarrow> (Some (JVector []), source, errors)
              | Json (Some (Some e # entries)) \<Rightarrow>
                  (Some e, if truthy (Some e) then Some ''lmstudio'' else source, errors)))"

text \<open>
  The rows of one table with their similarity to the query vector. The operator
  \<open><=>\<close> (cosine distance) belongs to the store and is a parameter.
\<close>

definition similarity_rows ::
  "(vector \<Rightarrow> vector \<Rightarrow> rat) \<Rightarrow> vector \<Rightarrow> entity list \<Rightarrow> string \<Rightarrow> observation list \<Rightarrow> db_row list" where
  "similarity_rows distance qv ents storage rows =
     concat (map (\<lambda>r. case embedding r of
                         None \<Rightarrow> []
                       | Some v \<Rightarrow>
                           [\<lparr>row_obs = r,
                             row_entity_name =
                               map_option ent_name (find (\<lambda>e. ent_id e = entity_id r) ents),
                             row_storage = storage,
                             row_similarity = 1 - distance v qv\<rparr>]) rows)"

text \<open>\<open>WHERE similarity >= %s ORDER BY similarity DESC LIMIT %s\<close>\<close>

definition rank :: "rat \<Rightarrow> int \<Rightarrow> db_row list \<Rightarrow> db_row list" where
  "rank min_similarity limit pool =
     take (nat limit)
       (sort_key (\<lambda>r. - row_similarity r) (filter (\<lambda>r. min_similarity \<le> row_similarity r) pool))"

text \<open>The two queries: both tables in one pool, or the active observations alone.\<close>

definition search_rows ::
  "(vector \<Rightarrow> vector \<Rightarrow> rat) \<Rightarrow> tables \<Rightarrow> vector \<Rightarrow> rat \<Rightarrow> int \<Rightarrow> bool \<Rightarrow> db_row list" where
  "search_rows distance db qv min_similarity limit include_archive =
     (if include_archive
      then rank min_similarity limit
             (similarity_rows distance qv (entities db) ''active'' (observations db) @
              similarity_rows distance qv (entities db) ''archive'' (observations_archive db))
      else rank min_similarity limit
             (similarity_rows distance qv (entities db) ''active'' (observations db)))"

text \<open>\<open>round(x, 4)\<close>, on exact rationals: to the nearest multiple of 1/10000, a tie to
  the even one.\<close>

definition round_half_even :: "rat \<Rightarrow> int" where
  "round_half_even x =
     (let f = \<lfloor>x\<rfloor>; d = x - of_int f in
      if d < 1/2 then f else if 1/2 < d then f + 1 else if even f then f else f + 1)"

definition round4 :: "rat \<Rightarrow> rat" where
  "round4 x = of_int (round_half_even (x * 10000)) / 10000"

text \<open>
  "Format for JSON". The store hands a vector over in its text form, a non-empty string,
  so \<open>r.get('embedding')\<close> is true for every row that has one.
  \<open>r.get('similarity')\<close> is false for the similarity 0.0.
\<close>

definition format_row :: "db_row \<Rightarrow> search_result" where
  "format_row r =
     \<lparr>res_obs = (if embedding (row_obs r) \<noteq> None then (row_obs r)\<lparr>embedding := None\<rparr>
                 else row_obs r),
      res_entity_name = row_entity_name r,
      res_storage = row_storage r,
      res_similarity = (if row_similarity r \<noteq> 0 then Some (round4 (row_similarity r)) else None)\<rparr>"

text \<open>
  \<open>api_semantic_search\<close>. The ranking query runs in a \<open>try\<close> with a \<open>finally\<close> and no
  \<open>except\<close>: when the store cannot read the query vector, the exception leaves the
  function.
\<close>

definition api_semantic_search ::
  "providers \<Rightarrow> (vector \<Rightarrow> vector \<Rightarrow> rat) \<Rightarrow> tables \<Rightarrow> search_args \<Rightarrow> response" where
  "api_semantic_search env distance db args =
     (let query = strip (q args);
          limit = min 100 (max 1 (case limit_arg args of None \<Rightarrow> 30 | Some n \<Rightarrow> n));
          min_similarity = min 1 (max 0 (case min_similarity_arg args of None \<Rightarrow> 1/2 | Some x \<Rightarrow> x));
          include_archive = ((case include_archive_arg args of None \<Rightarrow> ''false'' | Some s \<Rightarrow> s) = ''true'')
      in if query = [] then BadRequest
         else (case ask_lmstudio env query (ask_ollama env query) of
                 (emb, source, errors) \<Rightarrow>
                   (case emb of
                      None \<Rightarrow> ServiceUnavailable errors
                    | Some e \<Rightarrow>
                        if \<not> py_true e then ServiceUnavailable errors
                        else (case as_query_text e of
                                None \<Rightarrow> ServerError
                              | Some qv \<Rightarrow>
                                  (let results = map format_row
                                         (search_rows distance db qv min_similarity limit
                                            include_archive)
                                   in Ok \<lparr>body_query = query, body_results = results,
                                          body_count = length results,
                                          body_min_similarity = min_similarity,
                                          body_embedding_source = source\<rparr>)))))"

text \<open>The results of a response; none when it is an error.\<close>

fun results_of :: "response \<Rightarrow> search_result list" where
  "results_of (Ok body) = body_results body"
| "results_of BadRequest = []"
| "results_of (ServiceUnavailable details) = []"
| "results_of ServerError = []"

subsection \<open>An example store for retrieval\<close>

text \<open>For vectors of length one (norm 1), the cosine distance is 1 minus the inner
  product.\<close>

definition unit_cosine_distance :: "vector \<Rightarrow> vector \<Rightarrow> rat" where
  "unit_cosine_distance a b = 1 - sum_list (map (\<lambda>(x, y). x * y) (zip a b))"

text \<open>One active observation, embedded as \<open>[1, 0]\<close>, at a right angle to the query
  vector \<open>[0, 1]\<close> of \<open>lmstudio_only\<close>; one archived observation embedded as \<open>[0, 1]\<close>.\<close>

definition retrieval_tables :: tables where
  "retrieval_tables =
     \<lparr>observations = [(single_observation ''short text'')\<lparr>embedding := Some [1, 0]\<rparr>],
      observations_archive =
        [(single_observation ''an older text'')\<lparr>obs_id := 2, embedding := Some [0, 1]\<rparr>],
      entities = [single_entity]\<rparr>"

definition example_args :: "rat \<Rightarrow> string \<Rightarrow> search_args" where
  "example_args lowest archive =
     \<lparr>q = ''text'', limit_arg = None, min_similarity_arg = Some lowest,
      include_archive_arg = Some archive\<rparr>"

section \<open>Saving an observation (native-host/longterm\_memory\_host.py)\<close>

text \<open>
  The message of the browser extension after JSON decoding. \<open>None\<close> is a missing key.
  The tags are a string, or a list of strings and \<open>null\<close>s (an element \<open>None\<close>), or
  something else, with which no save succeeds: on a number, a boolean, \<open>null\<close> or an
  object the tag handling raises or the store cannot take the value; and since
  \<open>'browser'\<close> is always in the final list, a list with a number, a boolean or a list
  among its elements is an array of mixed types, and one with an object cannot be sent.
\<close>

datatype tags_value = TagsString string | TagsList "string option list" | TagsOther

text \<open>
  The category is a string, or a value that is not a string. Of the latter the model
  keeps what the code observes. A false one (\<open>null\<close>, \<open>0\<close>, \<open>false\<close>, \<open>[]\<close>, \<open>{}\<close>) is
  skipped by the tag handling, looked up in the category map (which raises when the value
  cannot be hashed, as \<open>[]\<close> and \<open>{}\<close>) and stored in the metadata as its JSON text. A
  true one (a number, \<open>true\<close>, a list or object with elements) is appended to the tags,
  and then no save succeeds, for the reason given for the tags.
\<close>

datatype category_value =
  CategoryString string | CategoryFalse string bool | CategoryOther

text \<open>
  Of the title, the address, the capture type and the capture time, which the code only
  formats, compares with strings and stores, the model keeps the text; the content has to
  be a string for \<open>'\n'.join\<close> to accept it.
\<close>

record metadata_input =
  category_in :: "category_value option"
  tags_in :: "tags_value option"
  captured_at_in :: "string option"

record save_data =
  content :: string
  url :: string
  title :: string
  capture_type_in :: "string option"
  metadata_in :: metadata_input

text \<open>What the host takes from outside: \<open>urlparse(url).netloc\<close> and
  \<open>urlparse(url).path\<close> of the standard library, and the clock in its two formats.\<close>

record host_env =
  netloc_of :: "string \<Rightarrow> string"
  path_of :: "string \<Rightarrow> string"
  date_str :: string
  iso_now :: string

text \<open>\<open>map_category_to_observation_type(category, capture_type)\<close>; \<open>None\<close> when
  \<open>category_map.get\<close> raises. A value that is not a string is no key of the map.\<close>

definition map_category_to_observation_type :: "category_value \<Rightarrow> string \<Rightarrow> string option" where
  "map_category_to_observation_type category capture_type =
     (if capture_type = ''note'' then Some ''note''
      else if capture_type = ''selection'' then Some ''excerpt''
      else if capture_type = ''page'' then Some ''page_capture''
      else (case category of
              CategoryString name \<Rightarrow>
                (case map_of
                        [(''documentation'', ''reference''), (''reference'', ''reference''),
                         (''research'', ''research''), (''article'', ''article''),
                         (''news'', ''news''), (''code'', ''technical''),
                         (''social'', ''social''), (''personal'', ''personal'')] name of
                   None \<Rightarrow> Some ''web_capture''
                 | Some t \<Rightarrow> Some t)
            | CategoryFalse json_text hashable \<Rightarrow>
                if hashable then Some ''web_capture'' else None
            | CategoryOther \<Rightarrow> None))"

text \<open>
  The tag handling of \<open>save_observation\<close> ("Extract category and tags from metadata" to
  "Add 'browser' tag to identify source"): the category and the final tag list, or
  \<open>None\<close> when the save cannot succeed (an exception is raised here, or the list is one
  that the INSERT will raise on).
\<close>

definition save_tags :: "metadata_input \<Rightarrow> (category_value \<times> string option list) option" where
  "save_tags m =
     (let category = (case category_in m of None \<Rightarrow> CategoryString ''auto'' | Some c \<Rightarrow> c) in
      case (case tags_in m of
              None \<Rightarrow> Some []
            | Some (TagsString s) \<Rightarrow>
                Some (map Some (filter (\<lambda>t. t \<noteq> []) (map strip (split_on CHR '','' s))))
            | Some (TagsList l) \<Rightarrow> Some l
            | Some TagsOther \<Rightarrow> None) of
        None \<Rightarrow> None
      | Some tag_list \<Rightarrow>
          (case category of
             CategoryOther \<Rightarrow> None
           | CategoryFalse json_text hashable \<Rightarrow>
               Some (category,
                     if Some ''browser'' \<notin> set tag_list then tag_list @ [Some ''browser'']
                     else tag_list)
           | CategoryString name \<Rightarrow>
               (let tag_list = (if name \<noteq> [] \<and> name \<noteq> ''auto''
                                then (if Some name \<notin> set tag_list
                                      then tag_list @ [Some name]
                                      else tag_list)
                                else tag_list);
                    tag_list = (if Some ''browser'' \<notin> set tag_list
                                then tag_list @ [Some ''browser'']
                                else tag_list)
                in Some (category, tag_list))))"

definition get_or_create_entity ::
  "host_env \<Rightarrow> conn \<Rightarrow> string \<Rightarrow> string \<Rightarrow> nat outcome \<times> conn" where
  "get_or_create_entity env c the_url the_title =
     (let domain = (if netloc_of env the_url \<noteq> [] then netloc_of env the_url
                    else (case split_on CHR ''/'' (path_of env the_url) of
                            [] \<Rightarrow> []
                          | first # others \<Rightarrow> first));
          domain = (if domain = [] then ''unknown'' else domain)
      in case statement c of
           None \<Rightarrow> (Raised, c)
         | Some c1 \<Rightarrow>
             (case find (\<lambda>e. ent_name e = domain) (entities (working c1)) of
                Some found \<Rightarrow>
                  (case statement c1 of
                     None \<Rightarrow> (Raised, c1)
                   | Some c2 \<Rightarrow>
                       (Returned (ent_id found),
                        c2\<lparr>working := (working c2)\<lparr>entities :=
                              map (\<lambda>e. if ent_id e = ent_id found
                                        then e\<lparr>observation_count := observation_count e + 1\<rparr>
                                        else e)
                                  (entities (working c2))\<rparr>\<rparr>))
              | None \<Rightarrow>
                  (case statement c1 of
                     None \<Rightarrow> (Raised, c1)
                   | Some c2 \<Rightarrow>
                       (Returned (ent_seq c2),
                        c2\<lparr>working := (working c2)\<lparr>entities := entities (working c2) @
                              [\<lparr>ent_id = ent_seq c2, ent_name = domain, entity_type = ''website'',
                                ent_source_type = ''browser_extension'', observation_count = 1,
                                ent_metadata =
                                  [(''first_title'', the_title),
                                   (''created_via'', ''browser_extension''),
                                   (''first_captured'', iso_now env)]\<rparr>]\<rparr>,
                           ent_seq := ent_seq c2 + 1\<rparr>))))"

text \<open>\<open>SELECT COALESCE(MAX(observation_index), 0) + 1 FROM observations WHERE
  entity_id = %s\<close>\<close>

definition next_observation_index :: "conn \<Rightarrow> nat \<Rightarrow> int outcome \<times> conn" where
  "next_observation_index c eid =
     and_then (select_max_index c eid) (\<lambda>max_index c1. (Returned (max_index + 1), c1))"

record save_body =
  saved_observation_id :: nat
  saved_entity_id :: nat
  saved_observation_type :: string
  saved_importance :: rat
  saved_tags :: "string option list"

datatype save_response = Saved save_body | Failed

text \<open>The INSERT of the new observation, with its eight columns.\<close>

definition insert_observation ::
  "conn \<Rightarrow> nat \<Rightarrow> string \<Rightarrow> int \<Rightarrow> string \<Rightarrow> rat \<Rightarrow> (string \<times> string) list
     \<Rightarrow> string option list \<Rightarrow> nat outcome \<times> conn" where
  "insert_observation c eid text idx otype imp meta tag_list = (case statement c of
       None \<Rightarrow> (Raised, c)
     | Some c1 \<Rightarrow>
         (Returned (obs_seq c1),
          c1\<lparr>working := (working c1)\<lparr>observations := observations (working c1) @
                 [\<lparr>obs_id = obs_seq c1, entity_id = eid, observation_text = text,
                   observation_index = idx, source_type = ''browser_extension'',
                   embedding = None, created_at = now c1, observation_type = Some otype,
                   importance = Some imp, tags = Some tag_list, metadata = Some meta\<rparr>]\<rparr>,
              obs_seq := obs_seq c1 + 1\<rparr>))"

text \<open>
  \<open>save_observation(data)\<close>. The connection is the one that \<open>get_db_connection()\<close>
  opens (opening it is a statement that can raise). Every exception ends in the failure
  response, with nothing committed; the model gives the failure response as soon as the
  message is one on which a later step raises.
\<close>

definition save_observation :: "host_env \<Rightarrow> conn \<Rightarrow> save_data \<Rightarrow> save_response \<times> conn" where
  "save_observation env c data =
     (let capture_type = (case capture_type_in data of None \<Rightarrow> ''unknown'' | Some t \<Rightarrow> t);
          metadata_input = metadata_in data
      in case statement c of
           None \<Rightarrow> (Failed, c)
         | Some c0 \<Rightarrow>
             (case save_tags metadata_input of
                None \<Rightarrow> (Failed, c0)
              | Some (category, tag_list) \<Rightarrow>
                (case map_category_to_observation_type category capture_type of
                   None \<Rightarrow> (Failed, c0)
                 | Some otype \<Rightarrow>
                  (let header =
                         (if capture_type = ''note''
                            then date_str env @ '': NOTE from '' @ title data
                          else if capture_type = ''selection''
                            then date_str env @ '': EXCERPT from '' @ title data
                          else if capture_type = ''page''
                            then date_str env @ '': PAGE CAPTURE - '' @ title data
                          else date_str env @ '': '' @ title data);
                       observation_text =
                         join [CHR 0x0A] [header, ''URL: '' @ url data, [], content data];
                       has_notes = (capture_type = ''note'' \<or> capture_type = ''selection'');
                       imp = host_calculate_importance capture_type has_notes tag_list;
                       obs_metadata =
                         [(''url'', url data), (''domain'', netloc_of env (url data)),
                          (''category'', (case category of
                                            CategoryString name \<Rightarrow> name
                                          | CategoryFalse json_text hashable \<Rightarrow> json_text
                                          | CategoryOther \<Rightarrow> [])),
                          (''capture_type'', capture_type),
                          (''captured_at'', (case captured_at_in metadata_input of
                                               None \<Rightarrow> iso_now env
                                             | Some t \<Rightarrow> t))]
                   in case
                        and_then (get_or_create_entity env c0 (url data) (title data)) (\<lambda>eid c1.
                        and_then (next_observation_index c1 eid) (\<lambda>idx c2.
                        and_then (insert_observation c2 eid observation_text idx otype imp
                                    obs_metadata tag_list) (\<lambda>oid c3.
                        and_then (commit c3) (\<lambda>_ c4. (Returned (oid, eid), c4)))))
                      of
                        (Raised, c') \<Rightarrow> (Failed, c')
                      | (Returned (oid, eid), c') \<Rightarrow>
                          (Saved \<lparr>saved_observation_id = oid, saved_entity_id = eid,
                                  saved_observation_type = otype, saved_importance = imp,
                                  saved_tags = tag_list\<rparr>, c')))))"

subsection \<open>Example messages\<close>

text \<open>A parser that knows one address, and a fixed clock.\<close>

definition example_host :: host_env where
  "example_host =
     \<lparr>netloc_of = (\<lambda>u. if u = ''https://example.org/page'' then ''example.org'' else []),
      path_of = (\<lambda>u. if u = ''https://example.org/page'' then ''/page'' else u),
      date_str = ''November 03, 2025'',
      iso_now = ''2025-11-03T12:00:00''\<rparr>"

definition example_message :: "category_value option \<Rightarrow> tags_value option \<Rightarrow> save_data" where
  "example_message category tag_input =
     \<lparr>content = ''Some selected words'', url = ''https://example.org/page'',
      title = ''A page'', capture_type_in = Some ''selection'',
      metadata_in = \<lparr>category_in = category, tags_in = tag_input, captured_at_in = None\<rparr>\<rparr>"

text \<open>The response body of a save, when it succeeded.\<close>

fun saved_body :: "save_response \<Rightarrow> save_body option" where
  "saved_body (Saved body) = Some body"
| "saved_body Failed = None"

section \<open>Properties of the chunker\<close>

lemma intro_example_topics:
  "split_topics ''(1) intro text (2) more text'' = ['''', ''(1) intro text '', ''(2) more text'']"
  by code_simp

lemma intro_example_nonblank:
  "filter nonblank ['''', ''(1) intro text '', ''(2) more text'']
     = [''(1) intro text '', ''(2) more text'']"
  by code_simp

lemma intro_example_strip:
  "map strip [''(1) intro text '', ''(2) more text''] = [''(1) intro text'', ''(2) more text'']"
  by code_simp

text \<open>
  C8, as amended. The text \<open>(1) intro text (2) more text\<close> (28 characters) is cut by the
  topical split into the pieces \<open>(1) intro text_\<close> (15 characters with its trailing
  blank) and \<open>(2) more text\<close> (13 characters), and the chunker accepts the split when
  every non-blank piece, as cut, is shorter than the limit. For every size limit above
  15 the chunker returns exactly the two segments, starting with \<open>(1)\<close> and \<open>(2)\<close>. And
  for every text and limit: when one of the non-blank pieces of the topical split is not
  shorter than the limit, the result is the sentence-based splitting of the whole text.
\<close>

theorem topical_split_edge_case:
  "(15 < max_size \<longrightarrow>
      smart_chunk_text ''(1) intro text (2) more text'' max_size
        = [''(1) intro text'', ''(2) more text'']) \<and>
   ((\<exists>t \<in> set (filter nonblank (split_topics text)). max_size \<le> int (length t)) \<longrightarrow>
      smart_chunk_text text max_size = sentence_chunks text max_size)"
proof (intro conjI impI)
  assume "15 < max_size"
  then show "smart_chunk_text ''(1) intro text (2) more text'' max_size
        = [''(1) intro text'', ''(2) more text'']"
    unfolding smart_chunk_text_def intro_example_topics Let_def intro_example_nonblank
      intro_example_strip
    by simp
next
  assume "\<exists>t \<in> set (filter nonblank (split_topics text)). max_size \<le> int (length t)"
  then have "\<not> list_all (\<lambda>t. int (length t) < max_size) (filter nonblank (split_topics text))"
    unfolding list_all_iff by fastforce
  then show "smart_chunk_text text max_size = sentence_chunks text max_size"
    unfolding smart_chunk_text_def Let_def by simp
qed

theorem topical_split_edge_case_witness:
  "smart_chunk_text ''(1) intro text (2) more text'' 20 = [''(1) intro text'', ''(2) more text''] \<and>
   smart_chunk_text ''(1) aaaa bbbb. cc (2) d'' 10 = sentence_chunks ''(1) aaaa bbbb. cc (2) d'' 10 \<and>
   sentence_chunks ''(1) aaaa bbbb. cc (2) d'' 10 = [''(1) aaaa bbbb.'', ''cc (2) d'']"
proof -
  have h: "\<exists>t \<in> set (filter nonblank (split_topics ''(1) aaaa bbbb. cc (2) d'')).
             (10::int) \<le> int (length t)"
    by code_simp
  have e: "sentence_chunks ''(1) aaaa bbbb. cc (2) d'' 10 = [''(1) aaaa bbbb.'', ''cc (2) d'']"
    by code_simp
  show ?thesis
    using topical_split_edge_case [of 20 "''(1) aaaa bbbb. cc (2) d''"]
          topical_split_edge_case [of 10 "''(1) aaaa bbbb. cc (2) d''"] h e
    by simp
qed

text \<open>
  C8, as stated, fails at the limit 15: it is smaller than the whole text (28) and larger
  than each topic (14 and 13 characters), but not larger than the first piece with its
  trailing blank, so the topical split is given up and the text comes back as one chunk.
\<close>

theorem topical_split_at_limit_15:
  "smart_chunk_text ''(1) intro text (2) more text'' 15 = [''(1) intro text (2) more text''] \<and>
   (15::int) < int (length ''(1) intro text (2) more text'') \<and>
   int (length ''(1) intro text'') < 15 \<and>
   int (length ''(2) more text'') < 15"
  by code_simp

subsection \<open>Texts the chunker cannot split\<close>

lemma no_paren_no_marker: "CHR ''('' \<notin> set s \<Longrightarrow> \<not> topic_marker s"
  by (cases s) auto

lemma no_marker_split_after_first:
  "CHR ''('' \<notin> set s \<Longrightarrow> split_after_first s = [s]"
proof (induction s)
  case Nil
  then show ?case by simp
next
  case (Cons c cs)
  then have "\<not> topic_marker cs" using no_paren_no_marker by simp
  with Cons show ?case by simp
qed

lemma no_marker_split_topics: "CHR ''('' \<notin> set s \<Longrightarrow> split_topics s = [s]"
  unfolding split_topics_def using no_marker_split_after_first no_paren_no_marker by simp

lemma no_space_split_sentences_from:
  "\<forall>c \<in> set s. \<not> is_space c \<Longrightarrow> split_sentences_from p False s = [s]"
  by (induction s arbitrary: p) auto

lemma dropWhile_none: "\<forall>c \<in> set xs. \<not> P c \<Longrightarrow> dropWhile P xs = xs"
  by (cases xs) auto

lemma strip_no_space:
  assumes "\<forall>c \<in> set s. \<not> is_space c"
  shows "strip (s @ '' '') = s"
proof -
  have sp: "is_space CHR '' ''" by code_simp
  have r: "dropWhile is_space (rev s) = rev s" using assms by (intro dropWhile_none) simp
  have 2: "dropWhile is_space (rev (s @ '' '')) = rev s" using sp r by simp
  have 1: "dropWhile is_space (s @ '' '') = (if s = [] then [] else s @ '' '')"
    using assms sp by (cases s) auto
  show ?thesis
  proof (cases "s = []")
    case True
    then show ?thesis unfolding strip_def using sp by simp
  next
    case False
    then show ?thesis unfolding strip_def using 1 2 by simp
  qed
qed

lemma unsplittable_single_chunk:
  assumes "CHR ''('' \<notin> set s" and "\<forall>c \<in> set s. \<not> is_space c"
  shows "smart_chunk_text s m = [s]"
proof -
  have t: "split_topics s = [s]" using assms no_marker_split_topics by simp
  have ss: "split_sentences s = [s]"
    unfolding split_sentences_def using assms no_space_split_sentences_from by simp
  have "sentence_chunks s m = [s]"
    unfolding sentence_chunks_def ss using strip_no_space [OF assms(2)] by (simp add: Let_def)
  then show ?thesis unfolding smart_chunk_text_def t by simp
qed

lemma long_word_single_chunk:
  "smart_chunk_text (replicate n CHR ''a'') m = [replicate n CHR ''a'']"
  by (rule unsplittable_single_chunk) (auto simp: is_space_def)

text \<open>
  C3. The docstring of \<open>smart_chunk_text\<close> promises "hard splitting if sentences are too
  long", and its last line truncates to the size limit when no chunk was produced. That
  line is never reached: after the loop \<open>current_chunk\<close> always holds the last sentence, so
  \<open>chunks\<close> is never empty. A text of 801 letters with the limit 800 comes back whole, as
  one chunk of 801 characters; and a sentence over the limit is emitted whole wherever it
  stands, not only at the end.
\<close>

theorem oversized_chunk_not_truncated:
  "smart_chunk_text (replicate 801 CHR ''a'') 800 = [replicate 801 CHR ''a''] \<and>
   length (replicate 801 CHR ''a'') = 801 \<and>
   smart_chunk_text ''aaaaaaaaaa. bbbbbbbbbb. c'' 5 = [''aaaaaaaaaa.'', ''bbbbbbbbbb.'', ''c'']"
proof -
  have "smart_chunk_text ''aaaaaaaaaa. bbbbbbbbbb. c'' 5 = [''aaaaaaaaaa.'', ''bbbbbbbbbb.'', ''c'']"
    by code_simp
  then show ?thesis using long_word_single_chunk [of 801 800] by simp
qed

section \<open>Chunking and archival as one unit of work\<close>

lemma and_then_simps [simp]:
  "and_then (Raised, c) f = (Raised, c)"
  "and_then (Returned x, c) f = f x c"
  by (simp_all add: and_then_def)

lemma statement_cases:
  "statement c = None \<longleftrightarrow> fail_after c = Some 0"
  "statement c = Some c1 \<longleftrightarrow>
     (fail_after c = None \<and> c1 = c) \<or> (\<exists>k. fail_after c = Some (Suc k) \<and> c1 = c\<lparr>fail_after := Some k\<rparr>)"
  by (auto simp: statement_def split: option.splits nat.splits)

lemma statement_keeps:
  "statement c = Some c1 \<Longrightarrow>
     committed c1 = committed c \<and> working c1 = working c \<and> obs_seq c1 = obs_seq c \<and> now c1 = now c
     \<and> fail_after c1 = map_option (\<lambda>k. k - 1) (fail_after c)"
  by (auto simp: statement_def split: option.splits nat.splits)

lemma upt_head: "[x ..< Suc (x + k)] = x # [Suc x ..< Suc (x + k)]"
  by (subst upt_rec) simp

lemma insert_chunks_committed:
  "committed (snd (insert_chunks c eid d n m i chunks ids)) = committed c"
proof (induction chunks arbitrary: c i ids)
  case Nil
  then show ?case by simp
next
  case (Cons t rest)
  show ?case
  proof (cases "statement c")
    case None
    then show ?thesis by (simp add: insert_chunk_def)
  next
    case (Some c1)
    then show ?thesis using Cons [of _ "i+1"] statement_keeps [OF Some]
      by (simp add: insert_chunk_def)
  qed
qed

lemma insert_chunks_raised:
  "fst (insert_chunks c eid d n m i chunks ids) = Raised \<longleftrightarrow> \<not> survives c (length chunks)"
proof (induction chunks arbitrary: c i ids)
  case Nil
  then show ?case by (simp add: survives_def split: option.splits)
next
  case (Cons t rest)
  show ?case
  proof (cases "statement c")
    case None
    then have "fail_after c = Some 0" by (simp add: statement_cases)
    then show ?thesis using None by (simp add: insert_chunk_def survives_def)
  next
    case (Some c1)
    have "survives c (Suc (length rest)) \<longleftrightarrow> survives (c1\<lparr>working := w, obs_seq := s\<rparr>) (length rest)" for w s
      using Some by (auto simp: statement_def survives_def split: option.splits nat.splits)
    then show ?thesis using Cons [of _ "i+1"] Some
      by (simp add: insert_chunk_def)
  qed
qed

lemma insert_chunks_returned:
  "insert_chunks c eid d n m i chunks ids = (Returned ids', c') \<Longrightarrow>
     ids' = ids @ [obs_seq c ..< obs_seq c + length chunks] \<and>
     obs_seq c' = obs_seq c + length chunks \<and>
     fail_after c' = map_option (\<lambda>k. k - length chunks) (fail_after c) \<and>
     observations_archive (working c') = observations_archive (working c) \<and>
     entities (working c') = entities (working c) \<and>
     (\<exists>new. observations (working c') = observations (working c) @ new \<and>
            map obs_id new = [obs_seq c ..< obs_seq c + length chunks] \<and>
            map observation_index new = map (\<lambda>j. m + int j) [i ..< i + length chunks] \<and>
            map observation_text new = map (\<lambda>(j, t). chunk_with_part d j n t) (zip [i ..< i + length chunks] chunks) \<and>
            (\<forall>r \<in> set new. source_type r = ''chunked'' \<and> entity_id r = eid \<and> embedding r = None))"
proof (induction chunks arbitrary: c i ids)
  case Nil
  then show ?case by (cases "fail_after c") auto
next
  case (Cons t rest)
  show ?case
  proof (cases "statement c")
    case None
    then show ?thesis using Cons.prems by (simp add: insert_chunk_def)
  next
    case (Some c1)
    let ?row = "\<lparr>obs_id = obs_seq c1, entity_id = eid, observation_text = chunk_with_part d i n t,
                   observation_index = m + int i, source_type = ''chunked'', embedding = None,
                   created_at = now c1, observation_type = None, importance = None,
                   tags = None, metadata = None\<rparr>"
    let ?c2 = "c1\<lparr>working := (working c1)\<lparr>observations := observations (working c1) @ [?row]\<rparr>,
              obs_seq := obs_seq c1 + 1\<rparr>"
    have run: "insert_chunks ?c2 eid d n m (i + 1) rest (ids @ [obs_seq c1]) = (Returned ids', c')"
      using Cons.prems Some by (simp add: insert_chunk_def)
    note ih = Cons.IH [OF run]
    note k = statement_keeps [OF Some]
    from ih obtain new where new:
      "observations (working c') = observations (working ?c2) @ new"
      "map obs_id new = [obs_seq ?c2 ..< obs_seq ?c2 + length rest]"
      "map observation_index new = map (\<lambda>j. m + int j) [i + 1 ..< i + 1 + length rest]"
      "map observation_text new = map (\<lambda>(j, t). chunk_with_part d j n t) (zip [i + 1 ..< i + 1 + length rest] rest)"
      "\<forall>r \<in> set new. source_type r = ''chunked'' \<and> entity_id r = eid \<and> embedding r = None"
      by blast
    have 1: "ids' = ids @ [obs_seq c ..< obs_seq c + length (t # rest)]"
      using ih k by (simp add: upt_head del: upt_Suc)
    have 2: "obs_seq c' = obs_seq c + length (t # rest)" using ih k by simp
    have 3: "fail_after c' = map_option (\<lambda>k. k - length (t # rest)) (fail_after c)"
      using ih k by (cases "fail_after c") auto
    have 4: "observations_archive (working c') = observations_archive (working c)"
         "entities (working c') = entities (working c)" using ih k by simp_all
    have 5: "observations (working c') = observations (working c) @ (?row # new)"
      using new(1) k by simp
    have 6: "map obs_id (?row # new) = [obs_seq c ..< obs_seq c + length (t # rest)]"
      using new(2) k by (simp add: upt_head del: upt_Suc)
    have 7: "map observation_index (?row # new) = map (\<lambda>j. m + int j) [i ..< i + length (t # rest)]"
      using new(3) by (simp add: upt_head del: upt_Suc)
    have 8: "map observation_text (?row # new) = map (\<lambda>(j, t). chunk_with_part d j n t) (zip [i ..< i + length (t # rest)] (t # rest))"
      using new(4) by (simp add: upt_head del: upt_Suc)
    have 9: "\<forall>r \<in> set (?row # new). source_type r = ''chunked'' \<and> entity_id r = eid \<and> embedding r = None"
      using new(5) by simp
    show ?thesis using 1 2 3 4 5 6 7 8 9 by blast
  qed
qed


lemma after_inserts:
  assumes "fst (insert_chunks c eid d n m i chunks ids) \<noteq> Raised"
  obtains ids' c1 where "insert_chunks c eid d n m i chunks ids = (Returned ids', c1)"
  using assms by (cases "insert_chunks c eid d n m i chunks ids"; cases "fst (insert_chunks c eid d n m i chunks ids)") auto

text \<open>
  C7. Chunking one observation is one unit of work. Take a real chunking (the chunker
  gives two or more chunks) of an observation that is among the active ones, in a store
  whose ids all lie below the next value of the id sequence. The call raises exactly when
  a fault hits one of its statements (the \<open>N\<close> inserts, the archive copy, the deletion, the
  commit), and then the committed tables are what they were: neither the chunks, nor the
  archive copy, nor the deletion is visible. When it returns, everything is committed: the
  archive holds a row with the original id and the original text, no active observation
  has that id, and each of the \<open>N\<close> returned ids is an active row of source type
  \<open>chunked\<close>.
\<close>

theorem chunking_is_atomic:
  assumes run: "chunk_long_observation c oid obs_text eid max_index = (res, c')"
      and split: "1 < length (smart_chunk_text obs_text MAX_CHUNK_SIZE)"
      and present: "\<exists>r \<in> set (observations (working c)). obs_id r = oid \<and> observation_text r = obs_text"
      and fresh: "\<forall>r \<in> set (observations (working c)). obs_id r < obs_seq c"
  shows "(res = Raised \<longleftrightarrow>
            (\<exists>k. fail_after c = Some k \<and> k < length (smart_chunk_text obs_text MAX_CHUNK_SIZE) + 3)) \<and>
         (res = Raised \<longrightarrow> committed c' = committed c) \<and>
         (\<forall>new_ids. res = Returned new_ids \<longrightarrow>
            committed c' = working c' \<and>
            (\<exists>r \<in> set (observations_archive (committed c')). obs_id r = oid \<and> observation_text r = obs_text) \<and>
            (\<forall>r \<in> set (observations (committed c')). obs_id r \<noteq> oid) \<and>
            length new_ids = length (smart_chunk_text obs_text MAX_CHUNK_SIZE) \<and>
            (\<forall>i \<in> set new_ids. \<exists>r \<in> set (observations (committed c')).
                 obs_id r = i \<and> source_type r = ''chunked''))"
proof -
  let ?chunks = "smart_chunk_text obs_text MAX_CHUNK_SIZE"
  let ?n = "length ?chunks"
  let ?ins = "insert_chunks c eid (date_prefix_of obs_text) ?n max_index 1 ?chunks []"
  have body: "and_then ?ins
          (\<lambda>new_obs_ids c1.
        and_then (archive_original c1 oid) (\<lambda>_ c2.
        and_then (delete_original c2 oid) (\<lambda>_ c3.
        and_then (commit c3) (\<lambda>_ c4. (Returned new_obs_ids, c4))))) = (res, c')"
    using run split unfolding chunk_long_observation_def Let_def by simp
  show ?thesis
  proof (cases "fst ?ins = Raised")
    case True
    then obtain c1 where ins: "?ins = (Raised, c1)" by (cases ?ins) auto
    have "res = Raised" "c' = c1" using body unfolding ins by simp_all
    moreover have "committed c1 = committed c"
      using insert_chunks_committed [of c eid "date_prefix_of obs_text" ?n max_index 1 ?chunks "[]"] ins
      by simp
    moreover have "\<not> survives c ?n" using True insert_chunks_raised by simp
    ultimately show ?thesis by (auto simp: survives_def split: option.splits)
  next
    case False
    then obtain ids1 c1 where ins: "?ins = (Returned ids1, c1)" by (rule after_inserts)
    note f = insert_chunks_returned [OF ins]
    have com: "committed c1 = committed c" using insert_chunks_committed [of c eid "date_prefix_of obs_text" ?n max_index 1 ?chunks "[]"] ins by simp
    have sv: "survives c ?n" using False insert_chunks_raised by simp
    from f obtain new where new: "observations (working c1) = observations (working c) @ new"
       "map obs_id new = [obs_seq c ..< obs_seq c + ?n]"
       "\<forall>r \<in> set new. source_type r = ''chunked'' \<and> entity_id r = eid \<and> embedding r = None" by blast
    have ids1: "ids1 = [obs_seq c ..< obs_seq c + ?n]" using f by simp
    have newids: "\<forall>r \<in> set new. obs_id r \<noteq> oid"
    proof
      fix r assume "r \<in> set new"
      then have "obs_id r \<in> set (map obs_id new)" by simp
      then have "obs_seq c \<le> obs_id r" unfolding new(2) by simp
      moreover have "oid < obs_seq c" using present fresh by auto
      ultimately show "obs_id r \<noteq> oid" by simp
    qed
    have fa: "fail_after c1 = map_option (\<lambda>k. k - ?n) (fail_after c)" using f by simp
    have rest: "and_then (archive_original c1 oid) (\<lambda>_ c2.
        and_then (delete_original c2 oid) (\<lambda>_ c3.
        and_then (commit c3) (\<lambda>_ c4. (Returned ids1, c4)))) = (res, c')"
      using body unfolding ins by simp
    show ?thesis
    proof (cases "survives c1 3")
      case True
      then have post: "res = Returned ids1" "committed c' = working c'"
         "observations_archive (working c') = observations_archive (working c1) @
            filter (\<lambda>r. obs_id r = oid) (observations (working c1))"
         "observations (working c') = filter (\<lambda>r. obs_id r \<noteq> oid) (observations (working c1))"
        using rest
        by (auto simp: archive_original_def delete_original_def commit_def statement_def
              survives_def split: option.splits nat.splits)
      have ok: "\<not> (\<exists>k. fail_after c = Some k \<and> k < ?n + 3)"
        using True sv fa by (auto simp: survives_def split: option.splits)
      have arch: "\<exists>r \<in> set (observations_archive (committed c')). obs_id r = oid \<and> observation_text r = obs_text"
        using present unfolding post(2) post(3) new(1) by auto
      have gone: "\<forall>r \<in> set (observations (committed c')). obs_id r \<noteq> oid"
        unfolding post(2) post(4) by simp
      have len: "length ids1 = ?n" unfolding ids1 by simp
      have there: "\<forall>i \<in> set ids1. \<exists>r \<in> set (observations (committed c')). obs_id r = i \<and> source_type r = ''chunked''"
      proof
        fix i assume "i \<in> set ids1"
        then have "i \<in> set (map obs_id new)" unfolding ids1 new(2) .
        then obtain r where r: "r \<in> set new" "obs_id r = i" by auto
        then have "r \<in> set (observations (committed c'))"
          unfolding post(2) post(4) new(1) using newids by simp
        then show "\<exists>r \<in> set (observations (committed c')). obs_id r = i \<and> source_type r = ''chunked''"
          using r new(3) by blast
      qed
      show ?thesis using post(1,2) ok arch gone len there by simp
    next
      case False
      then have post: "res = Raised" "committed c' = committed c1"
        using rest
        by (auto simp: archive_original_def delete_original_def commit_def statement_def
              survives_def split: option.splits nat.splits)
      have "\<exists>k. fail_after c = Some k \<and> k < ?n + 3"
        using False sv fa by (auto simp: survives_def split: option.splits)
      then show ?thesis using post com by simp
    qed
  qed
qed

theorem chunking_is_atomic_witness:
  "fst (chunk_long_observation (single_conn two_topics None) 7 two_topics 3 4) \<noteq> Raised \<and>
   (\<exists>r \<in> set (observations_archive (committed (snd
          (chunk_long_observation (single_conn two_topics None) 7 two_topics 3 4)))).
      obs_id r = 7 \<and> observation_text r = two_topics) \<and>
   7 \<notin> obs_id ` set (observations (committed (snd
          (chunk_long_observation (single_conn two_topics None) 7 two_topics 3 4)))) \<and>
   fst (chunk_long_observation (single_conn two_topics (Some 4)) 7 two_topics 3 4) = Raised \<and>
   committed (snd (chunk_long_observation (single_conn two_topics (Some 4)) 7 two_topics 3 4))
     = committed (single_conn two_topics (Some 4))"
proof -
  have split: "1 < length (smart_chunk_text two_topics MAX_CHUNK_SIZE)"
    by code_simp
  have present: "\<exists>r \<in> set (observations (working (single_conn two_topics fault))).
                   obs_id r = 7 \<and> observation_text r = two_topics" for fault
    by (simp add: single_conn_def single_observation_def)
  have fresh: "\<forall>r \<in> set (observations (working (single_conn two_topics fault))).
                   obs_id r < obs_seq (single_conn two_topics fault)" for fault
    by (simp add: single_conn_def single_observation_def)
  have n: "length (smart_chunk_text two_topics MAX_CHUNK_SIZE) = 3"
    by code_simp
  have none: "fail_after (single_conn two_topics None) = None"
    and some: "fail_after (single_conn two_topics (Some 4)) = Some 4"
    by (simp_all add: single_conn_def)
  show ?thesis
    using chunking_is_atomic [OF prod.collapse [symmetric] split present fresh, of None 3 4]
          chunking_is_atomic [OF prod.collapse [symmetric] split present fresh, of "Some 4" 3 4]
          n none some
    by (cases "fst (chunk_long_observation (single_conn two_topics None) 7 two_topics 3 4)") auto
qed

section \<open>What the chunks of an observation hold\<close>

text \<open>
  C1. Each chunk is stored as the date prefix, the part tag and
  \<open>chunk_text[len(date_prefix):].strip()\<close>. The slice is right for a chunk that begins
  with the date prefix; every other chunk loses its first \<open>len(date_prefix)\<close>
  characters. The 810 characters \<open>Jan 1: a...a. b...b.\<close> (400 letters each) are split
  into two chunks; both get the prefix and their part tag, and the sequence indices 5 and
  6 after the maximum 4, but the second chunk, 400 letters \<open>b\<close> and a full stop, is stored
  with 394 letters \<open>b\<close>: six characters of the original are in no stored chunk.
\<close>

theorem chunk_slice_drops_text:
  "smart_chunk_text two_sentences MAX_CHUNK_SIZE
     = [''Jan 1: '' @ replicate 400 CHR ''a'' @ ''.'', replicate 400 CHR ''b'' @ ''.''] \<and>
   map (\<lambda>r. (observation_index r, observation_text r))
     (observations (committed (snd
        (chunk_long_observation (single_conn two_sentences None) 7 two_sentences 3 4))))
     = [(5, ''Jan 1: (Part 1/2) '' @ replicate 400 CHR ''a'' @ ''.''),
        (6, ''Jan 1: (Part 2/2) '' @ replicate 394 CHR ''b'' @ ''.'')]"
  by code_simp


section \<open>The classifier\<close>

text \<open>
  C5. For every text, entity name and list of user entities, the importance computed
  when backfilling lies in [0.1, 1.0]; for every capture type, notes flag and tag list,
  the importance computed at ingestion lies in [0.0, 1.0]. Both functions end in a clamp,
  which holds whatever the signals added up to.
\<close>

theorem importance_within_bounds:
  "1/10 \<le> calculate_importance text entity_name env \<and>
   calculate_importance text entity_name env \<le> 1 \<and>
   0 \<le> host_calculate_importance capture_type has_notes tag_list \<and>
   host_calculate_importance capture_type has_notes tag_list \<le> 1"
  unfolding calculate_importance_def host_calculate_importance_def Let_def
  by (simp add: le_max_iff_disj)

lemma importance_examples:
  "calculate_importance '''' None '''' = 1/2 \<and>
   text_score ''important breakthrough in production: decision completed, fixed, learned'' = 134/100 \<and>
   calculate_importance ''important breakthrough in production: decision completed, fixed, learned''
        (Some ''Me'') ''you,me'' = 1 \<and>
   text_score ''testing a minor debug'' = 35/100 \<and>
   host_calculate_importance ''page'' False [] = 4/10 \<and>
   host_calculate_importance ''note'' True [''idea''] = 8/10"
  by code_simp

subsection \<open>Type inference\<close>

lemma no_match_count_zero:
  "\<not> re_search p s \<Longrightarrow> count_matches_from k p s = 0"
  by (induction s arbitrary: k) (auto split: option.splits)

lemma type_score_zero:
  "list_all (\<lambda>p. \<not> re_search p s) ps \<Longrightarrow> foldl (\<lambda>score p. score + count_matches p s) n ps = n"
  by (induction ps arbitrary: n) (auto simp: count_matches_def no_match_count_zero)

lemma no_match_no_scores:
  assumes "list_all (\<lambda>(obs_type, patterns). list_all (\<lambda>p. \<not> re_search p s) patterns) tp"
  shows "filter (\<lambda>(obs_type, score). 0 < score)
       (map (\<lambda>(obs_type, patterns). (obs_type, type_score patterns s)) tp) = []"
  using assms by (induction tp) (auto simp: type_score_def type_score_zero)

lemma example_scores:
  "type_scores (py_lower ''Successfully fixed the deployment issue'')
     = [(''technical_achievement'', 2), (''problem'', 1)]"
  by code_simp

lemma example_type:
  "infer_observation_type ''Successfully fixed the deployment issue'' = ''technical_achievement''"
  unfolding infer_observation_type_def example_scores by simp

lemma example_text_score:
  "text_score ''Successfully fixed the deployment issue'' = 73/100"
  by code_simp

text \<open>
  C9. The text \<open>Successfully fixed the deployment issue\<close> is given the type
  \<open>technical_achievement\<close> (two matches, \<open>successfully\<close> and \<open>fixed\<close>, against one for
  \<open>problem\<close>), and its backfill importance is above the base 0.5 for every entity name
  and every list of user entities. A text in which no pattern of any type matches gets
  the default type \<open>note\<close>.
\<close>

theorem classifier_example_and_default:
  "type_scores (py_lower ''Successfully fixed the deployment issue'')
     = [(''technical_achievement'', 2), (''problem'', 1)] \<and>
   infer_observation_type ''Successfully fixed the deployment issue'' = ''technical_achievement'' \<and>
   1/2 < calculate_importance ''Successfully fixed the deployment issue'' entity_name env \<and>
   (list_all (\<lambda>(obs_type, patterns). list_all (\<lambda>p. \<not> re_search p (py_lower text)) patterns)
        TYPE_PATTERNS
      \<longrightarrow> infer_observation_type text = ''note'')"
proof (intro conjI impI)
  show "type_scores (py_lower ''Successfully fixed the deployment issue'')
     = [(''technical_achievement'', 2), (''problem'', 1)]"
    by (rule example_scores)
  show "infer_observation_type ''Successfully fixed the deployment issue'' = ''technical_achievement''"
    by (rule example_type)
  show "1/2 < calculate_importance ''Successfully fixed the deployment issue'' entity_name env"
    unfolding calculate_importance_def Let_def example_text_score
    by (simp split: option.splits)
next
  assume "list_all (\<lambda>(obs_type, patterns). list_all (\<lambda>p. \<not> re_search p (py_lower text)) patterns)
        TYPE_PATTERNS"
  then have "type_scores (py_lower text) = []"
    unfolding type_scores_def by (rule no_match_no_scores)
  then show "infer_observation_type text = ''note''"
    unfolding infer_observation_type_def by simp
qed

theorem classifier_example_and_default_witness:
  "list_all (\<lambda>(obs_type, patterns). list_all (\<lambda>p. \<not> re_search p (py_lower ''Hello, World'')) patterns)
        TYPE_PATTERNS \<and>
   infer_observation_type ''Hello, World'' = ''note''"
proof -
  have h: "list_all (\<lambda>(obs_type, patterns). list_all (\<lambda>p. \<not> re_search p (py_lower ''Hello, World'')) patterns)
        TYPE_PATTERNS"
    by code_simp
  show ?thesis using classifier_example_and_default [of "None" "''''" "''Hello, World''"] h by simp
qed

section \<open>The embedding pass\<close>

lemma chunk_long_word:
  "chunk_long_observation c oid (replicate n CHR ''a'') eid m = (Returned [], c)"
  unfolding chunk_long_observation_def long_word_single_chunk by simp

text \<open>
  C4. In the loop of \<open>embed_observations\<close> the \<open>continue\<close> that skips the "normal
  embedding for observations under MAX\_CHUNK\_SIZE" stands inside \<open>if new_ids:\<close>. When the
  chunker gives a single chunk, \<open>chunk_long_observation\<close> returns no ids and the
  oversized observation goes on to be embedded whole. A store whose only observation is a
  word of 801 letters, entered by hand, ends the pass with that observation embedded: 801
  characters, source type \<open>manual\<close>, a non-null embedding.
\<close>

theorem oversized_observation_embedded_whole:
  "map (\<lambda>r. (obs_id r, length (observation_text r), source_type r, embedding r))
     (observations (committed (snd
        (embed_observations ollama_only (single_conn (replicate 801 CHR ''a'') None) None 10))))
   = [(7, 801, ''manual'', Some [1])]"
  by (simp add: embed_observations_def select_unembedded_def statement_def single_conn_def
      single_observation_def embed_one_def MAX_CHUNK_SIZE_def select_max_index_def
      chunk_long_word embed_whole_def get_ollama_embedding_def try_ollama_def ollama_only_def
      update_embedding_def commit_def)

section \<open>The provider chain\<close>














section \<open>Semantic retrieval\<close>

text \<open>What the ranking query guarantees, whatever the distance: the rows are at or above
  the floor, in descending order of similarity, at most \<open>limit\<close> of them, taken from one
  pool when the archive is included; and formatting removes the embedding.\<close>

lemma rank_above_floor: "\<forall>r \<in> set (rank m l pool). m \<le> row_similarity r"
  unfolding rank_def by (auto dest: in_set_takeD)

lemma rank_descending:
  "sorted_wrt (\<lambda>a b. row_similarity b \<le> row_similarity a) (rank m l pool)"
proof -
  have "sorted (map (\<lambda>r. - row_similarity r) (rank m l pool))"
    unfolding rank_def take_map [symmetric]
    using sorted_wrt_take [of "(\<le>)" "map (\<lambda>r. - row_similarity r)
             (sort_key (\<lambda>r. - row_similarity r) (filter (\<lambda>r. m \<le> row_similarity r) pool))" "nat l"]
    by simp
  then show ?thesis by (simp add: sorted_map)
qed

lemma rank_length: "length (rank m l pool) \<le> nat l"
  unfolding rank_def by simp

lemma similarity_rows_embedded:
  "\<forall>r \<in> set (similarity_rows distance qv ents storage rows). embedding (row_obs r) \<noteq> None"
proof
  fix r assume "r \<in> set (similarity_rows distance qv ents storage rows)"
  then obtain o1 where "o1 \<in> set rows"
     "r \<in> set (case embedding o1 of None \<Rightarrow> []
                | Some v \<Rightarrow> [\<lparr>row_obs = o1,
                     row_entity_name = map_option ent_name (find (\<lambda>e. ent_id e = entity_id o1) ents),
                     row_storage = storage, row_similarity = 1 - distance v qv\<rparr>])"
    unfolding similarity_rows_def by auto
  then show "embedding (row_obs r) \<noteq> None" by (cases "embedding o1") auto
qed

lemma format_row_strips: "embedding (res_obs (format_row r)) = None"
  unfolding format_row_def by simp

lemma search_rows_one_pool:
  "search_rows distance db qv m l True =
     rank m l (similarity_rows distance qv (entities db) ''active'' (observations db) @
               similarity_rows distance qv (entities db) ''archive'' (observations_archive db))"
  unfolding search_rows_def by simp

text \<open>
  C2. The similarity of a result is rounded only when it is true in Python's sense:
  \<open>round(r['similarity'], 4) if r.get('similarity') else None\<close>. A stored vector at a
  right angle to the query vector has the similarity 0.0; with the floor 0.0 it is
  returned, and its similarity in the response is \<open>null\<close>, not 0.0.
\<close>

theorem zero_similarity_becomes_null:
  "status_code (api_semantic_search lmstudio_only unit_cosine_distance retrieval_tables
                  (example_args 0 ''false'')) = 200 \<and>
   map row_similarity (search_rows unit_cosine_distance retrieval_tables [0, 1] 0 30 False) = [0] \<and>
   map res_similarity (results_of (api_semantic_search lmstudio_only unit_cosine_distance
                                      retrieval_tables (example_args 0 ''false''))) = [None]"
  by code_simp

section \<open>The tags of a saved observation\<close>

lemma and_then_Returned:
  assumes "and_then m f = (Returned y, c')"
  obtains x c1 where "m = (Returned x, c1)" and "f x c1 = (Returned y, c')"
proof -
  obtain r c1 where m: "m = (r, c1)" by (cases m) auto
  show ?thesis using assms m that by (cases r) auto
qed

lemma save_tags_browser:
  assumes "save_tags m = Some (category, tag_list)"
  shows "Some ''browser'' \<in> set tag_list"
  using assms unfolding save_tags_def Let_def
  by (auto split: option.splits tags_value.splits category_value.splits if_splits)

lemma save_tags_category:
  assumes "save_tags m = Some (category, tag_list)"
      and "category_in m = Some (CategoryString cat)" and "cat \<noteq> []" and "cat \<noteq> ''auto''"
  shows "Some cat \<in> set tag_list"
  using assms unfolding save_tags_def Let_def
  by (auto split: option.splits tags_value.splits if_splits)

lemma save_tags_not_other:
  assumes "save_tags m = Some (category, tag_list)"
  shows "category_in m \<noteq> Some CategoryOther"
  using assms unfolding save_tags_def Let_def
  by (auto split: option.splits tags_value.splits)

lemma save_tags_split:
  assumes "save_tags m = Some (category, tag_list)"
      and "tags_in m = Some (TagsString s)"
  shows "prefix (map Some (filter (\<lambda>t. t \<noteq> []) (map strip (split_on CHR '','' s)))) tag_list"
  using assms unfolding save_tags_def Let_def
  by (auto split: option.splits category_value.splits if_splits)

lemma insert_observation_row:
  assumes "insert_observation c eid text idx otype imp meta tag_list = (Returned oid, c')"
  shows "\<exists>row \<in> set (observations (working c')). obs_id row = oid \<and> tags row = Some tag_list"
  using assms unfolding insert_observation_def by (auto split: option.splits)

lemma commit_Returned:
  assumes "commit c = (Returned u, c')"
  shows "committed c' = working c"
  using assms unfolding commit_def by (auto simp: statement_def split: option.splits nat.splits)

lemma saved_row_committed:
  assumes "and_then (get_or_create_entity env c0 u t) (\<lambda>eid c1.
           and_then (next_observation_index c1 eid) (\<lambda>idx c2.
           and_then (insert_observation c2 eid text idx otype imp meta tag_list) (\<lambda>oid c3.
           and_then (commit c3) (\<lambda>_ c4. (Returned (oid, eid), c4))))) = (Returned (oid', eid'), c')"
  shows "\<exists>row \<in> set (observations (committed c')). obs_id row = oid' \<and> tags row = Some tag_list"
proof -
  from assms obtain eid c1 where
    1: "and_then (next_observation_index c1 eid) (\<lambda>idx c2.
           and_then (insert_observation c2 eid text idx otype imp meta tag_list) (\<lambda>oid c3.
           and_then (commit c3) (\<lambda>_ c4. (Returned (oid, eid), c4)))) = (Returned (oid', eid'), c')"
    by (rule and_then_Returned)
  from 1 obtain idx c2 where
    2: "and_then (insert_observation c2 eid text idx otype imp meta tag_list) (\<lambda>oid c3.
           and_then (commit c3) (\<lambda>_ c4. (Returned (oid, eid), c4))) = (Returned (oid', eid'), c')"
    by (rule and_then_Returned)
  from 2 obtain oid c3 where
    3: "insert_observation c2 eid text idx otype imp meta tag_list = (Returned oid, c3)"
    and 4: "and_then (commit c3) (\<lambda>_ c4. (Returned (oid, eid), c4)) = (Returned (oid', eid'), c')"
    by (rule and_then_Returned)
  from 4 obtain u c4 where 5: "commit c3 = (Returned u, c4)"
    and 6: "(Returned (oid, eid), c4) = (Returned (oid', eid'), c')"
    by (rule and_then_Returned)
  have "committed c' = working c3" using commit_Returned [OF 5] 6 by simp
  moreover have "oid' = oid" using 6 by simp
  ultimately show ?thesis using insert_observation_row [OF 3] by simp
qed

lemma save_observation_Saved:
  assumes "save_observation env c data = (Saved body, c')"
  shows "\<exists>category. save_tags (metadata_in data) = Some (category, saved_tags body) \<and>
     (\<exists>row \<in> set (observations (committed c')).
         obs_id row = saved_observation_id body \<and> tags row = Some (saved_tags body))"
  using assms unfolding save_observation_def Let_def
  by (auto split: option.splits prod.splits outcome.splits dest!: saved_row_committed)

text \<open>
  C10, as amended. For every successful save, the tag list of the response contains
  \<open>browser\<close> and is the tag list of the observation that was stored and committed; when
  the message carries as its category a non-empty string other than \<open>auto\<close>, that category
  is among the tags (a category that is true without being a string is in no successful
  save); and when the tags come as one string, the list starts with the pieces between
  the commas, trimmed, a piece that is empty after trimming being no tag.
\<close>

theorem saved_tags_browser_and_category:
  "save_observation env c data = (Saved body, c') \<longrightarrow>
     Some ''browser'' \<in> set (saved_tags body) \<and>
     (\<exists>row \<in> set (observations (committed c')).
         obs_id row = saved_observation_id body \<and> tags row = Some (saved_tags body)) \<and>
     (\<forall>cat. category_in (metadata_in data) = Some (CategoryString cat) \<and> cat \<noteq> [] \<and> cat \<noteq> ''auto''
         \<longrightarrow> Some cat \<in> set (saved_tags body)) \<and>
     category_in (metadata_in data) \<noteq> Some CategoryOther \<and>
     (\<forall>s. tags_in (metadata_in data) = Some (TagsString s)
         \<longrightarrow> prefix (map Some (filter (\<lambda>t. t \<noteq> []) (map strip (split_on CHR '','' s))))
               (saved_tags body))"
proof
  assume "save_observation env c data = (Saved body, c')"
  from save_observation_Saved [OF this] obtain category where
    t: "save_tags (metadata_in data) = Some (category, saved_tags body)" and
    r: "\<exists>row \<in> set (observations (committed c')).
          obs_id row = saved_observation_id body \<and> tags row = Some (saved_tags body)"
    by blast
  show "Some ''browser'' \<in> set (saved_tags body) \<and>
     (\<exists>row \<in> set (observations (committed c')).
         obs_id row = saved_observation_id body \<and> tags row = Some (saved_tags body)) \<and>
     (\<forall>cat. category_in (metadata_in data) = Some (CategoryString cat) \<and> cat \<noteq> [] \<and> cat \<noteq> ''auto''
         \<longrightarrow> Some cat \<in> set (saved_tags body)) \<and>
     category_in (metadata_in data) \<noteq> Some CategoryOther \<and>
     (\<forall>s. tags_in (metadata_in data) = Some (TagsString s)
         \<longrightarrow> prefix (map Some (filter (\<lambda>t. t \<noteq> []) (map strip (split_on CHR '','' s))))
               (saved_tags body))"
    using save_tags_browser [OF t] r save_tags_category [OF t] save_tags_split [OF t]
      save_tags_not_other [OF t] by blast
qed

theorem saved_tags_browser_and_category_witness:
  "map_option saved_tags (saved_body (fst (save_observation example_host (single_conn ''x'' None)
          (example_message (Some (CategoryString ''research''))
             (Some (TagsString '' ai ,, tools ''))))))
     = Some [Some ''ai'', Some ''tools'', Some ''research'', Some ''browser''] \<and>
   Some ''browser'' \<in> set [Some ''ai'', Some ''tools'', Some ''research'', Some ''browser''] \<and>
   Some ''research'' \<in> set [Some ''ai'', Some ''tools'', Some ''research'', Some ''browser''] \<and>
   prefix (map Some (filter (\<lambda>t. t \<noteq> []) (map strip (split_on CHR '','' '' ai ,, tools ''))))
     [Some ''ai'', Some ''tools'', Some ''research'', Some ''browser'']"
proof -
  let ?data = "example_message (Some (CategoryString ''research''))
                 (Some (TagsString '' ai ,, tools ''))"
  let ?run = "save_observation example_host (single_conn ''x'' None) ?data"
  have "saved_body (fst ?run) \<noteq> None" by code_simp
  then obtain body where b: "fst ?run = Saved body" by (cases "fst ?run") auto
  then have run: "?run = (Saved body, snd ?run)" by (metis prod.collapse)
  have tg: "map_option saved_tags (saved_body (fst ?run))
              = Some [Some ''ai'', Some ''tools'', Some ''research'', Some ''browser'']"
    by code_simp
  then have st: "saved_tags body = [Some ''ai'', Some ''tools'', Some ''research'', Some ''browser'']"
    using b by simp
  have m: "category_in (metadata_in ?data) = Some (CategoryString ''research'')"
    "tags_in (metadata_in ?data) = Some (TagsString '' ai ,, tools '')"
    by (simp_all add: example_message_def)
  show ?thesis
    using saved_tags_browser_and_category [of example_host "single_conn ''x'' None" ?data body
        "snd ?run"] run tg st m
    by simp
qed

lemma null_tag_is_saved:
  "map_option saved_tags (saved_body (fst (save_observation example_host (single_conn ''x'' None)
          (example_message None (Some (TagsList [None]))))))
     = Some [None, Some ''browser'']"
  by code_simp

text \<open>
  C10, as stated, fails for the empty category: it is a category other than \<open>auto\<close>, the
  guard \<open>if category and category != 'auto'\<close> skips it, and the save succeeds with the
  tags \<open>['browser']\<close>.
\<close>

theorem empty_category_is_no_tag:
  "map_option saved_tags (saved_body (fst (save_observation example_host (single_conn ''x'' None)
          (example_message (Some (CategoryString '''')) None))))
     = Some [Some ''browser''] \<and>
   Some '''' \<notin> set [Some ''browser''] \<and>
   category_in (metadata_in (example_message (Some (CategoryString '''')) None))
     = Some (CategoryString '''') \<and>
   '''' \<noteq> ''auto''"
  by code_simp

end
